theory Spec2Isabelle
  imports Main
begin

section \<open>Strings and integer parsing\<close>

text \<open>
  Python strings are modelled as \<^typ>\<open>string\<close>, one \<^typ>\<open>char\<close> per code point below 256.
  \<open>str.strip()\<close> removes the characters for which \<open>str.isspace()\<close> holds; below 256
  these are the code points 9 to 13, 28 to 32, 133 and 160.
\<close>

definition is_space :: "char \<Rightarrow> bool" where
  "is_space c =
     (let n = (of_char c :: nat)
      in (9 \<le> n \<and> n \<le> 13) \<or> (28 \<le> n \<and> n \<le> 32) \<or> n = 133 \<or> n = 160)"

definition strip :: "string \<Rightarrow> string" where
  "strip s = rev (dropWhile is_space (rev (dropWhile is_space s)))"

text \<open>\<open>s.split(",")\<close>: the fields between the commas; the empty string has one empty field.\<close>

fun split_comma :: "string \<Rightarrow> string list" where
  "split_comma [] = [[]]"
| "split_comma (c # cs) =
     (if c = CHR '','' then [] # split_comma cs
      else (case split_comma cs of
              [] \<Rightarrow> [[c]]
            | f # fs \<Rightarrow> (c # f) # fs))"

definition is_digit :: "char \<Rightarrow> bool" where
  "is_digit c = (let n = (of_char c :: nat) in 48 \<le> n \<and> n \<le> 57)"

definition digit_val :: "char \<Rightarrow> nat" where
  "digit_val c = of_char c - 48"

text \<open>
  \<open>int(s)\<close> in base 10: surrounding whitespace is dropped, then an optional sign, then
  decimal digits in which a single underscore may stand between two digits. Anything else
  raises \<open>ValueError\<close>, which is \<open>None\<close> here. The whitespace \<open>int\<close> drops is
  narrower than that of \<open>strip\<close>: below 256 the code points 9 to 13, 32, 133 and 160.
  An interpreter that limits the number of digits \<open>int\<close> reads (4300 by default since
  Python 3.11) raises \<open>ValueError\<close> beyond the limit; the limit is not part of this
  definition.
\<close>

definition is_int_space :: "char \<Rightarrow> bool" where
  "is_int_space c =
     (let n = (of_char c :: nat) in (9 \<le> n \<and> n \<le> 13) \<or> n = 32 \<or> n = 133 \<or> n = 160)"

fun parse_digits :: "nat \<Rightarrow> string \<Rightarrow> nat option" where
  "parse_digits acc [] = Some acc"
| "parse_digits acc (c # cs) =
     (if is_digit c then parse_digits (acc * 10 + digit_val c) cs
      else if c = CHR ''_'' then
        (case cs of
           [] \<Rightarrow> None
         | d # ds \<Rightarrow> if is_digit d then parse_digits (acc * 10 + digit_val d) ds else None)
      else None)"

definition parse_unsigned :: "string \<Rightarrow> nat option" where
  "parse_unsigned s =
     (case s of
        [] \<Rightarrow> None
      | c # cs \<Rightarrow> if is_digit c then parse_digits (digit_val c) cs else None)"

definition py_int :: "string \<Rightarrow> int option" where
  "py_int s =
     (case rev (dropWhile is_int_space (rev (dropWhile is_int_space s))) of
        [] \<Rightarrow> None
      | c # cs \<Rightarrow>
          if c = CHR ''-'' then map_option (\<lambda>n. - int n) (parse_unsigned cs)
          else if c = CHR ''+'' then map_option int (parse_unsigned cs)
          else map_option int (parse_unsigned (c # cs)))"

text \<open>\<open>str(n)\<close> for an integer: its decimal digits, with a minus sign when negative.\<close>

definition digit_char :: "nat \<Rightarrow> char" where
  "digit_char d =
     (if d = 0 then CHR ''0'' else if d = 1 then CHR ''1'' else if d = 2 then CHR ''2''
      else if d = 3 then CHR ''3'' else if d = 4 then CHR ''4'' else if d = 5 then CHR ''5''
      else if d = 6 then CHR ''6'' else if d = 7 then CHR ''7'' else if d = 8 then CHR ''8''
      else CHR ''9'')"

fun str_nat :: "nat \<Rightarrow> string" where
  "str_nat n =
     (if n < 10 then [digit_char n]
      else str_nat (n div 10) @ [digit_char (n mod 10)])"

declare str_nat.simps [simp del]

definition str_int :: "int \<Rightarrow> string" where
  "str_int i = (if i < 0 then CHR ''-'' # str_nat (nat (- i)) else str_nat (nat i))"

section \<open>Catalog loader\<close>

record product =
  product_name :: string
  product_price :: int

type_synonym products = "string \<rightharpoonup> product"

text \<open>
  The product file as \<open>load_products\<close> meets it: absent (\<open>os.path.exists\<close> is false),
  failing while it is opened or read (any exception inside the \<open>try\<close>), or a sequence of
  lines as the file iterator yields them.
\<close>

datatype catalog_file = Missing | Unreadable | Lines "string list"

text \<open>One round of the \<open>for\<close> loop of \<open>load_products\<close>; each \<open>continue\<close> returns the dictionary as it is.\<close>

definition load_line :: "products \<Rightarrow> string \<Rightarrow> products" where
  "load_line products raw =
     (let line = strip raw in
      if line = [] then products
      else
        (let parts = split_comma line in
         if length parts \<noteq> 3 then products
         else
           (case parts of
              [barcode, name, price_str] \<Rightarrow>
                if strip barcode = [] then products
                else
                  (case py_int (strip price_str) of
                     None \<Rightarrow> products
                   | Some price \<Rightarrow>
                       products(strip barcode \<mapsto>
                         \<lparr>product_name = strip name,
                          product_price = (if price < 0 then abs price else price)\<rparr>))
            | _ \<Rightarrow> products)))"

definition load_products :: "catalog_file \<Rightarrow> products" where
  "load_products f =
     (case f of
        Missing \<Rightarrow> Map.empty
      | Unreadable \<Rightarrow> Map.empty
      | Lines ls \<Rightarrow> fold (\<lambda>line products. load_line products line) ls Map.empty)"

section \<open>Floating point: \<open>int(total * 1.05)\<close>\<close>

text \<open>
  \<open>total * 1.05\<close> converts the integer to a double, multiplies it by the double nearest to
  1.05 and rounds the product to a double again; \<open>int\<close> then truncates towards zero.
  A finite double of magnitude at least 1 is an integer significand of at most 53 bits times
  a power of two, so rounding to nearest, ties to even, is done on natural numbers here:
  \<open>round_53 a\<close> is the number of at most 53 significant bits nearest to \<open>a\<close>.
  The double nearest to 1.05 is \<open>4728779608739021 / 2 ^ 52\<close>.
\<close>

fun bit_length :: "nat \<Rightarrow> nat" where
  "bit_length n = (if n = 0 then 0 else Suc (bit_length (n div 2)))"

declare bit_length.simps [simp del]

definition round_53 :: "nat \<Rightarrow> nat" where
  "round_53 a =
     (let l = bit_length a in
      if l \<le> 53 then a
      else
        (let s = l - 53; q = a div 2 ^ s; r = a mod 2 ^ s; h = 2 ^ (s - 1)
         in (if h < r \<or> (r = h \<and> odd q) then q + 1 else q) * 2 ^ s))"

definition DOUBLE_1_05 :: nat where
  "DOUBLE_1_05 = 4728779608739021"

datatype exn =
    SqliteError
  | OverflowError
  | BadRequest
  | SignatureVerificationError
  | GatewayError string

text \<open>
  \<open>int(total * 1.05)\<close>. The conversion of the total raises \<open>OverflowError\<close> when it rounds
  to \<open>2 ^ 1024\<close> or more; a product that rounds so far is infinite, and \<open>int\<close> of it raises
  \<open>OverflowError\<close> too.
\<close>

definition final_amount :: "int \<Rightarrow> exn + int" where
  "final_amount tot =
     (let f = round_53 (nat \<bar>tot\<bar>) in
      if 2 ^ 1024 \<le> f then Inl OverflowError
      else
        (let p = round_53 (f * DOUBLE_1_05) in
         if 2 ^ 1076 \<le> p then Inl OverflowError
         else Inr (sgn tot * int (p div 2 ^ 52))))"

section \<open>Storage: the cart and orders tables\<close>

record cart_line =
  barcode :: string
  name :: string
  price :: int
  qty :: int

record order_row =
  order_id :: nat
  order_number :: string
  order_total :: int
  created_at :: nat
  status :: string

text \<open>
  The rows of both tables in rowid order, and the \<open>AUTOINCREMENT\<close> counter of \<open>orders\<close>.
  A price or quantity is the number the column holds. SQLite keeps an \<open>INTEGER\<close> in 64
  bits; a number strictly between \<open>- 2 ^ 63\<close> and \<open>2 ^ 63\<close> stands for a stored
  \<open>INTEGER\<close>, any other for the \<open>REAL\<close> (a double) of that value, which is what the
  column holds after an addition has overflowed. (The number \<open>- 2 ^ 63\<close>, which a column
  can hold either way, is read as a \<open>REAL\<close>.)
\<close>

record database =
  cart :: "cart_line list"
  orders :: "order_row list"
  orders_seq :: nat

text \<open>
  A Python integer can be bound to a statement when it fits in 64 bits; \<open>execute\<close>
  raises \<open>OverflowError\<close> for any other.
\<close>

definition bindable :: "int \<Rightarrow> bool" where
  "bindable v = (- (2 ^ 63) \<le> v \<and> v < 2 ^ 63)"

definition stored_integer :: "int \<Rightarrow> bool" where
  "stored_integer v = (- (2 ^ 63) < v \<and> v < 2 ^ 63)"

text \<open>The double nearest to an integer, as an integer; ties go to the even significand.\<close>

definition to_double :: "int \<Rightarrow> int" where
  "to_double x = sgn x * int (round_53 (nat \<bar>x\<bar>))"

text \<open>
  \<open>qty + ?\<close> in SQLite, for a stored number and a bound integer: the sum of two integers
  when it fits in 64 bits; otherwise both are converted to doubles and added as doubles.
  On the way into the \<open>INTEGER\<close> column a double that is an integer strictly inside the
  64-bit range becomes an \<open>INTEGER\<close> again, any other stays a \<open>REAL\<close>; both are the
  same number here.
\<close>

definition sqlite_add :: "int \<Rightarrow> int \<Rightarrow> int" where
  "sqlite_add a p =
     (if stored_integer a \<and> - (2 ^ 63) \<le> a + p \<and> a + p < 2 ^ 63 then a + p
      else to_double (to_double a + to_double p))"

text \<open>\<open>SELECT qty FROM cart WHERE barcode=?\<close> followed by \<open>fetchone()\<close>.\<close>

definition select_qty :: "string \<Rightarrow> database \<Rightarrow> int option" where
  "select_qty b db = map_option qty (find (\<lambda>l. barcode l = b) (cart db))"

text \<open>
  \<open>UPDATE cart SET qty = qty + ? WHERE barcode=?\<close>; a decrement adds \<open>- 1\<close>.
  \<open>update_rows\<close> is what the statement does to the rows, \<open>update_qty\<close> the call
  that first binds the number.
\<close>

definition update_rows :: "int \<Rightarrow> string \<Rightarrow> database \<Rightarrow> database" where
  "update_rows d b db =
     db\<lparr>cart := map (\<lambda>l. if barcode l = b then l\<lparr>qty := sqlite_add (qty l) d\<rparr> else l)
                    (cart db)\<rparr>"

definition update_qty :: "int \<Rightarrow> string \<Rightarrow> database \<Rightarrow> exn + database" where
  "update_qty d b db = (if bindable d then Inr (update_rows d b db) else Inl OverflowError)"

text \<open>
  \<open>INSERT INTO cart VALUES (?, ?, ?, ?)\<close>: the price and the quantity are bound first;
  the primary key refuses a barcode that is present.
\<close>

definition insert_cart :: "cart_line \<Rightarrow> database \<Rightarrow> exn + database" where
  "insert_cart l db =
     (if \<not> bindable (price l) \<or> \<not> bindable (qty l) then Inl OverflowError
      else if barcode l \<in> set (map barcode (cart db)) then Inl SqliteError
      else Inr (db\<lparr>cart := cart db @ [l]\<rparr>))"



definition delete_cart :: "database \<Rightarrow> database" where
  "delete_cart db = db\<lparr>cart := []\<rparr>"

text \<open>
  \<open>INSERT INTO orders (order_number, total, status) VALUES (?, ?, ?)\<close>: the total is
  bound first, \<open>order_number\<close> is \<open>UNIQUE\<close>, the id is the next one of the counter,
  \<open>created_at\<close> defaults to the current time.
\<close>

definition insert_order :: "nat \<Rightarrow> string \<Rightarrow> int \<Rightarrow> string \<Rightarrow> database \<Rightarrow> exn + database" where
  "insert_order now num tot st db =
     (if \<not> bindable tot then Inl OverflowError
      else if num \<in> set (map order_number (orders db)) then Inl SqliteError
      else Inr (db\<lparr>orders := orders db @
                       [\<lparr>order_id = Suc (orders_seq db), order_number = num, order_total = tot,
                         created_at = now, status = st\<rparr>],
                    orders_seq := Suc (orders_seq db)\<rparr>))"

text \<open>
  \<open>i[2] * i[3]\<close> for a row of the cart: the product of two integers when both columns
  hold an \<open>INTEGER\<close>; when one holds a \<open>REAL\<close> Python converts the other to a double
  and the product is the double nearest to the product of the two.
\<close>

definition real_row :: "cart_line \<Rightarrow> bool" where
  "real_row i = (\<not> stored_integer (price i) \<or> \<not> stored_integer (qty i))"

definition line_total :: "cart_line \<Rightarrow> int" where
  "line_total i =
     (if real_row i then to_double (to_double (price i) * to_double (qty i))
      else price i * qty i)"

text \<open>
  \<open>sum(...)\<close> adds from the left, starting with the integer 0. \<open>py_sum fl acc c\<close> adds
  the rows of \<open>c\<close> to the accumulator \<open>acc\<close>, which is a float when \<open>fl\<close> holds: two
  integers add exactly, and as soon as one side is a float the other is converted and
  the sum is rounded to a double. (This is the addition of CPython up to 3.11; from 3.12
  on \<open>sum\<close> carries the rounding errors of the floats along, which can change the last
  bits when three or more rows hold a \<open>REAL\<close>. No double is infinite here.)
\<close>

fun py_sum :: "bool \<Rightarrow> int \<Rightarrow> cart_line list \<Rightarrow> int" where
  "py_sum fl acc [] = acc"
| "py_sum fl acc (i # c) =
     (if fl \<or> real_row i then py_sum True (to_double (to_double acc + to_double (line_total i))) c
      else py_sum False (acc + line_total i) c)"

text \<open>\<open>sum(i[2] * i[3] for i in cart)\<close>\<close>

definition cart_total :: "cart_line list \<Rightarrow> int" where
  "cart_total c = py_sum False 0 c"

section \<open>Environment of a request\<close>

record payment_params =
  razorpay_order_id :: "string option"
  razorpay_payment_id :: "string option"
  razorpay_signature :: "string option"

record order_data =
  amount :: int
  currency :: string
  receipt :: string
  notes_customer_name :: string
  notes_customer_phone :: string
  notes_order_notes :: string
  notes_items :: nat

text \<open>
  The Razorpay client is library code: \<open>order.create\<close> returns the id of the gateway order
  or raises, \<open>utility.verify_payment_signature\<close> returns or raises.
\<close>

record razorpay =
  order_create :: "order_data \<Rightarrow> exn + string"
  verify_payment_signature :: "payment_params \<Rightarrow> exn + unit"

text \<open>
  What a handler reads from outside: the product file, the gateway configuration
  (\<open>razorpay_client\<close> is \<open>None\<close> when a key is missing), the clock, the random draw, and
  which of the storage calls of this request fail with \<open>sqlite3.Error\<close> (call 0 is the
  connection, the statements and the commit are counted from 1).
\<close>

record env =
  PRODUCT_FILE :: catalog_file
  RAZORPAY_KEY_ID :: string
  razorpay_client :: "razorpay option"
  time_now :: nat
  random_draw :: nat
  db_fails :: "nat \<Rightarrow> bool"

datatype endpoint = Home | Shop | Checkout

definition url_for :: "endpoint \<Rightarrow> string" where
  "url_for e = (case e of Home \<Rightarrow> ''/'' | Shop \<Rightarrow> ''/shop'' | Checkout \<Rightarrow> ''/checkout'')"

datatype json = JStr string | JInt int | JBool bool | JExn exn

text \<open>
  A response: a redirect, \<open>jsonify(...)\<close> with its status (\<open>JExn e\<close> is \<open>str(e)\<close>), the
  rendered checkout page, or the server error of an exception no handler catches.
\<close>

datatype response =
    Redirect string
  | Json nat "(string \<times> json) list"
  | RenderCheckout "cart_line list" int int string
  | Uncaught exn

text \<open>The HTTP status of a response; \<open>redirect\<close> answers 302 and \<open>jsonify\<close> alone 200.\<close>

definition http_status :: "response \<Rightarrow> nat" where
  "http_status r =
     (case r of
        Redirect _ \<Rightarrow> 302
      | Json st _ \<Rightarrow> st
      | RenderCheckout _ _ _ _ \<Rightarrow> 200
      | Uncaught _ \<Rightarrow> 500)"

text \<open>
  What a handler leaves behind: the database, the response, the messages passed to
  \<open>flash\<close> (message, category) and the requests sent to the gateway.
\<close>

record outcome =
  db_after :: database
  response :: response
  flashed :: "(string \<times> string) list"
  gateway_requests :: "order_data list"

text \<open>\<open>generate_order_number\<close>: \<open>int(time.time()) % 1000\<close> followed by \<open>random.randint(100, 999)\<close>.\<close>

definition generate_order_number :: "env \<Rightarrow> string" where
  "generate_order_number env =
     (let timestamp_suffix = time_now env mod 1000;
          random_suffix = 100 + random_draw env mod 900
      in str_nat timestamp_suffix @ str_nat random_suffix)"

text \<open>
  A storage call: it raises \<open>sqlite3.Error\<close> when the environment makes call \<open>n\<close> fail,
  and otherwise does what the statement does (which may raise too).
\<close>

definition execute :: "env \<Rightarrow> nat \<Rightarrow> (exn + 'a) \<Rightarrow> exn + 'a" where
  "execute env n r = (if db_fails env n then Inl SqliteError else r)"

definition and_then :: "exn + 'a \<Rightarrow> ('a \<Rightarrow> exn + 'b) \<Rightarrow> exn + 'b" where
  "and_then r f = (case r of Inl e \<Rightarrow> Inl e | Inr v \<Rightarrow> f v)"

text \<open>
  \<open>with get_db() as con: ...\<close>: the connection commits when the block ends and rolls back
  when an exception leaves it, so the database is the one the block produced or the one
  before it.
\<close>

definition with_db ::
  "env \<Rightarrow> database \<Rightarrow> (database \<Rightarrow> exn + database \<times> 'a) \<Rightarrow> database \<times> (exn + 'a)" where
  "with_db env db block =
     (case execute env 0 (block db) of
        Inl e \<Rightarrow> (db, Inl e)
      | Inr (db', v) \<Rightarrow> (db', Inr v))"

section \<open>Cart handlers\<close>

text \<open>The quantity of a scan: \<open>int(request.form.get("qty", "1"))\<close>, 1 when below 1 or not an integer.\<close>

definition form_qty :: "(string \<rightharpoonup> string) \<Rightarrow> int" where
  "form_qty form =
     (case py_int (case form ''qty'' of None \<Rightarrow> ''1'' | Some v \<Rightarrow> v) of
        None \<Rightarrow> 1
      | Some q \<Rightarrow> if q < 1 then 1 else q)"

text \<open>The \<open>with\<close> block of \<open>home\<close>: select, then update or insert, then commit.\<close>

definition home_block :: "env \<Rightarrow> string \<Rightarrow> product \<Rightarrow> int \<Rightarrow> database \<Rightarrow> exn + database \<times> unit" where
  "home_block env b p q db =
     and_then (execute env 1 (Inr (select_qty b db))) (\<lambda>row.
     and_then (execute env 2
        (case row of
           Some _ \<Rightarrow> update_qty q b db
         | None \<Rightarrow> insert_cart \<lparr>barcode = b, name = product_name p, price = product_price p, qty = q\<rparr> db))
       (\<lambda>db'.
     and_then (execute env 3 (Inr db')) (\<lambda>db''. Inr (db'', ()))))"

text \<open>\<open>POST /\<close>\<close>

definition home_post :: "env \<Rightarrow> (string \<rightharpoonup> string) \<Rightarrow> database \<Rightarrow> outcome" where
  "home_post env form db =
     (let products = load_products (PRODUCT_FILE env);
          b = strip (case form ''barcode'' of None \<Rightarrow> [] | Some v \<Rightarrow> v);
          q = form_qty form
      in if b = [] then
           \<lparr>db_after = db, response = Redirect (url_for Home), flashed = [], gateway_requests = []\<rparr>
         else
           (case products b of
              Some p \<Rightarrow>
                (case with_db env db (home_block env b p q) of
                   (db', Inr _) \<Rightarrow>
                     \<lparr>db_after = db', response = Redirect (url_for Home), flashed = [],
                      gateway_requests = []\<rparr>
                 | (db', Inl e) \<Rightarrow>
                     (if e = SqliteError then
                        \<lparr>db_after = db', response = Redirect (url_for Home),
                         flashed = [(''Error adding item to cart. Please try again.'', ''error'')],
                         gateway_requests = []\<rparr>
                      else
                        \<lparr>db_after = db', response = Uncaught e, flashed = [],
                         gateway_requests = []\<rparr>))
            | None \<Rightarrow>
                \<lparr>db_after = db, response = Redirect (url_for Home),
                 flashed = [(''Product not found: '' @ b, ''warning'')], gateway_requests = []\<rparr>))"

text \<open>The statements of \<open>add_to_cart\<close> before the commit, with the message they flash.\<close>

definition add_to_cart_block :: "env \<Rightarrow> string \<Rightarrow> product \<Rightarrow> database \<Rightarrow> exn + database \<times> string" where
  "add_to_cart_block env b p db =
     and_then (execute env 1 (Inr (select_qty b db))) (\<lambda>existing.
     execute env 2
        (case existing of
           Some _ \<Rightarrow>
             and_then (update_qty 1 b db)
               (\<lambda>db'. Inr (db', ''Added another '' @ product_name p @ '' to cart!''))
         | None \<Rightarrow>
             and_then
               (insert_cart \<lparr>barcode = b, name = product_name p, price = product_price p, qty = 1\<rparr> db)
               (\<lambda>db'. Inr (db', ''Added '' @ product_name p @ '' to cart!''))))"

text \<open>
  \<open>GET /add-to-cart/<barcode>\<close>. The success message is flashed before the commit, so a
  failing commit rolls the cart back and leaves both messages.
\<close>

definition add_to_cart :: "env \<Rightarrow> string \<Rightarrow> database \<Rightarrow> outcome" where
  "add_to_cart env b db =
     (let products = load_products (PRODUCT_FILE env) in
      case products b of
        None \<Rightarrow>
          \<lparr>db_after = db, response = Redirect (url_for Shop),
           flashed = [(''Product not found: '' @ b, ''error'')], gateway_requests = []\<rparr>
      | Some p \<Rightarrow>
          (case execute env 0 (add_to_cart_block env b p db) of
             Inl e \<Rightarrow>
               (if e = SqliteError then
                  \<lparr>db_after = db, response = Redirect (url_for Shop),
                   flashed = [(''Error adding to cart. Please try again.'', ''error'')],
                   gateway_requests = []\<rparr>
                else
                  \<lparr>db_after = db, response = Uncaught e, flashed = [], gateway_requests = []\<rparr>)
           | Inr (db', msg) \<Rightarrow>
               (case execute env 3 (Inr db') of
                  Inr db'' \<Rightarrow>
                    \<lparr>db_after = db'', response = Redirect (url_for Shop),
                     flashed = [(msg, ''success'')], gateway_requests = []\<rparr>
                | Inl e \<Rightarrow>
                    (if e = SqliteError then
                       \<lparr>db_after = db, response = Redirect (url_for Shop),
                        flashed = [(msg, ''success''),
                                   (''Error adding to cart. Please try again.'', ''error'')],
                        gateway_requests = []\<rparr>
                     else
                       \<lparr>db_after = db, response = Uncaught e, flashed = [(msg, ''success'')],
                        gateway_requests = []\<rparr>))))"





section \<open>Checkout and payment handlers\<close>

text \<open>\<open>GET /checkout\<close>\<close>

definition checkout :: "env \<Rightarrow> database \<Rightarrow> outcome" where
  "checkout env db =
     (case with_db env db (\<lambda>db.
             and_then (execute env 1 (Inr (cart db))) (\<lambda>c.
             Inr (db, (c, if c \<noteq> [] then cart_total c else 0)))) of
        (db', Inl e) \<Rightarrow>
          (if e = SqliteError then
             \<lparr>db_after = db', response = Redirect (url_for Home),
              flashed = [(''Error loading checkout. Please try again.'', ''error'')],
              gateway_requests = []\<rparr>
           else
             \<lparr>db_after = db', response = Uncaught e, flashed = [], gateway_requests = []\<rparr>)
      | (db', Inr (c, tot)) \<Rightarrow>
          (if c = [] then
             \<lparr>db_after = db', response = Redirect (url_for Home),
              flashed = [(''Your cart is empty. Please add items before checkout.'', ''info'')],
              gateway_requests = []\<rparr>
           else
             (case final_amount tot of
                Inl e \<Rightarrow>
                  \<lparr>db_after = db', response = Uncaught e, flashed = [], gateway_requests = []\<rparr>
              | Inr fa \<Rightarrow>
                  \<lparr>db_after = db', response = RenderCheckout c tot fa (RAZORPAY_KEY_ID env),
                   flashed = [], gateway_requests = []\<rparr>)))"

text \<open>\<open>request.json.get(key, default)\<close> on a body that is a JSON object.\<close>

definition json_get :: "(string \<rightharpoonup> string) \<Rightarrow> string \<Rightarrow> string \<Rightarrow> string" where
  "json_get body k d = (case body k of None \<Rightarrow> d | Some v \<Rightarrow> v)"

text \<open>
  The part of \<open>create_order\<close> after the cart has been read and found non-empty: the amount,
  the customer details (\<open>request.json\<close> is \<open>None\<close> or raises when the body is no JSON
  object), the order data sent to the gateway.
\<close>

definition build_order_data ::
  "env \<Rightarrow> (string \<rightharpoonup> string) option \<Rightarrow> cart_line list \<Rightarrow> exn + order_data" where
  "build_order_data env body c =
     and_then (final_amount (cart_total c)) (\<lambda>fa.
       (case body of
          None \<Rightarrow> Inl BadRequest
        | Some j \<Rightarrow>
            Inr \<lparr>amount = fa * 100,
                 currency = ''INR'',
                 receipt = ''order_'' @ generate_order_number env,
                 notes_customer_name = json_get j ''customer_name'' ''Customer'',
                 notes_customer_phone = json_get j ''customer_phone'' [],
                 notes_order_notes = json_get j ''order_notes'' [],
                 notes_items = length c\<rparr>))"

text \<open>\<open>POST /create-order\<close>\<close>

definition create_order :: "env \<Rightarrow> (string \<rightharpoonup> string) option \<Rightarrow> database \<Rightarrow> outcome" where
  "create_order env body db =
     (case razorpay_client env of
        None \<Rightarrow>
          \<lparr>db_after = db, response = Json 500 [(''error'', JStr ''Razorpay not configured'')],
           flashed = [], gateway_requests = []\<rparr>
      | Some client \<Rightarrow>
          (case execute env 0 (execute env 1 (Inr (cart db))) of
             Inl e \<Rightarrow>
               \<lparr>db_after = db, response = Json 500 [(''error'', JExn e)], flashed = [],
                gateway_requests = []\<rparr>
           | Inr c \<Rightarrow>
               (if c = [] then
                  \<lparr>db_after = db, response = Json 400 [(''error'', JStr ''Cart is empty'')],
                   flashed = [], gateway_requests = []\<rparr>
                else
                  (case build_order_data env body c of
                     Inl e \<Rightarrow>
                       \<lparr>db_after = db, response = Json 500 [(''error'', JExn e)], flashed = [],
                        gateway_requests = []\<rparr>
                   | Inr data \<Rightarrow>
                       (case order_create client data of
                          Inl e \<Rightarrow>
                            \<lparr>db_after = db, response = Json 500 [(''error'', JExn e)],
                             flashed = [], gateway_requests = [data]\<rparr>
                        | Inr oid \<Rightarrow>
                            \<lparr>db_after = db,
                             response = Json 200 [(''order_id'', JStr oid),
                                                  (''amount'', JInt (amount data)),
                                                  (''currency'', JStr ''INR''),
                                                  (''key_id'', JStr (RAZORPAY_KEY_ID env))],
                             flashed = [], gateway_requests = [data]\<rparr>)))))"

text \<open>
  The \<open>with\<close> block of \<open>payment_success\<close>: read the cart, compute the amount, insert the
  order, clear the cart, commit. It returns the order number and the amount.
\<close>

definition payment_block :: "env \<Rightarrow> database \<Rightarrow> exn + database \<times> (string \<times> int)" where
  "payment_block env db =
     and_then (execute env 1 (Inr (cart db))) (\<lambda>c.
     and_then (final_amount (if c \<noteq> [] then cart_total c else 0)) (\<lambda>fa.
       (let num = generate_order_number env in
        and_then (execute env 2 (insert_order (time_now env) num fa ''completed'' db)) (\<lambda>db'.
        and_then (execute env 3 (Inr (delete_cart db'))) (\<lambda>db''.
        and_then (execute env 4 (Inr db'')) (\<lambda>db'''. Inr (db''', (num, fa))))))))"

text \<open>\<open>params_dict\<close>: the three fields of the callback, \<open>None\<close> where the body has none.\<close>

definition params_dict :: "(string \<rightharpoonup> string) \<Rightarrow> payment_params" where
  "params_dict payment_data =
     \<lparr>razorpay_order_id = payment_data ''razorpay_order_id'',
      razorpay_payment_id = payment_data ''razorpay_payment_id'',
      razorpay_signature = payment_data ''razorpay_signature''\<rparr>"

text \<open>The outer \<open>except Exception\<close> of \<open>payment_success\<close>.\<close>

definition payment_error :: "database \<Rightarrow> outcome" where
  "payment_error db =
     \<lparr>db_after = db,
      response = Json 500 [(''success'', JBool False),
                           (''error'', JStr ''Error processing payment. Please contact support.''),
                           (''redirect'', JStr (url_for Checkout))],
      flashed = [(''Error processing payment. Please contact support.'', ''error'')],
      gateway_requests = []\<rparr>"

text \<open>
  \<open>POST /payment-success\<close>. The body is read first, so a body that is no JSON object ends
  in the outer handler even when the gateway is not configured. The rupee sign of the
  flashed message is written as its three UTF-8 bytes.
\<close>

definition payment_success :: "env \<Rightarrow> (string \<rightharpoonup> string) option \<Rightarrow> database \<Rightarrow> outcome" where
  "payment_success env body db =
     (case body of
        None \<Rightarrow> payment_error db
      | Some payment_data \<Rightarrow>
          (case razorpay_client env of
             None \<Rightarrow>
               \<lparr>db_after = db,
                response = Json 500 [(''success'', JBool False),
                                     (''error'', JStr ''Payment gateway not configured.''),
                                     (''redirect'', JStr (url_for Home))],
                flashed = [], gateway_requests = []\<rparr>
           | Some client \<Rightarrow>
               (case verify_payment_signature client (params_dict payment_data) of
                  Inl e \<Rightarrow>
                    (if e = SignatureVerificationError then
                       \<lparr>db_after = db,
                        response = Json 400
                          [(''success'', JBool False),
                           (''error'', JStr ''Payment verification failed. Please contact support.''),
                           (''redirect'', JStr (url_for Checkout))],
                        flashed = [(''Payment verification failed. Please contact support.'',
                                    ''error'')],
                        gateway_requests = []\<rparr>
                     else payment_error db)
                | Inr _ \<Rightarrow>
                    (case with_db env db (payment_block env) of
                       (db', Inl e) \<Rightarrow> payment_error db'
                     | (db', Inr (num, fa)) \<Rightarrow>
                         \<lparr>db_after = db',
                          response = Json 200
                            [(''success'', JBool True),
                             (''message'', JStr (''Payment successful! Order #'' @ num)),
                             (''redirect'', JStr (url_for Home))],
                          flashed = [(''Payment successful! Order #'' @ num @ ''. Amount: '' @
                                        [CHR 0xE2, CHR 0x82, CHR 0xB9] @ str_int fa,
                                      ''success'')],
                          gateway_requests = []\<rparr>))))"

section \<open>The cart invariant\<close>


text \<open>The quantity of the line of a barcode, if the cart has one.\<close>

definition line_qty :: "string \<Rightarrow> cart_line list \<Rightarrow> int option" where
  "line_qty b c = map_option qty (find (\<lambda>l. barcode l = b) c)"

section \<open>Sequences of additions\<close>

text \<open>
  The two requests that add to the cart: a scan (\<open>POST /\<close> with its form) and a click in
  the shop (\<open>GET /add-to-cart/<barcode>\<close>), each with its own environment. A sequence of
  them runs one after the other on the database.
\<close>

datatype addition = Scan env "string \<rightharpoonup> string" | Add env string

fun run_addition :: "addition \<Rightarrow> database \<Rightarrow> database" where
  "run_addition (Scan env form) db = db_after (home_post env form db)"
| "run_addition (Add env b) db = db_after (add_to_cart env b db)"

fun run_additions :: "addition list \<Rightarrow> database \<Rightarrow> database" where
  "run_additions [] db = db"
| "run_additions (r # rs) db = run_additions rs (run_addition r db)"

text \<open>The barcode a scan asks for: the \<open>barcode\<close> field, stripped, empty when the field is missing.\<close>

definition scanned_barcode :: "(string \<rightharpoonup> string) \<Rightarrow> string" where
  "scanned_barcode form = strip (case form ''barcode'' of None \<Rightarrow> [] | Some v \<Rightarrow> v)"

text \<open>
  The quantity a scan asks for, in the words of the specification: the \<open>qty\<close> field read
  as an integer and raised to 1 when it is below 1; 1 when the field is missing or is no
  integer.
\<close>

definition requested_qty :: "(string \<rightharpoonup> string) \<Rightarrow> int" where
  "requested_qty form =
     (case form ''qty'' of
        None \<Rightarrow> 1
      | Some s \<Rightarrow> (case py_int s of None \<Rightarrow> 1 | Some q \<Rightarrow> max 1 q))"

text \<open>The quantity an addition asks for: that of the form for a scan, 1 for a click.\<close>

fun addition_qty :: "addition \<Rightarrow> int" where
  "addition_qty (Scan env form) = requested_qty form"
| "addition_qty (Add env b) = 1"

section \<open>Catalog lines in the words of the specification\<close>

text \<open>
  A line is excluded when the comma-split of the stripped line has not three fields, when
  the barcode is empty after stripping, or when the price is no integer. Otherwise it
  contributes its stripped barcode, with the stripped name and the absolute value of the
  price.
\<close>

definition line_excluded :: "string \<Rightarrow> bool" where
  "line_excluded raw =
     (let parts = split_comma (strip raw)
      in length parts \<noteq> 3 \<or> strip (parts ! 0) = [] \<or> py_int (strip (parts ! 2)) = None)"

definition line_barcode :: "string \<Rightarrow> string" where
  "line_barcode raw = strip (split_comma (strip raw) ! 0)"

definition line_product :: "string \<Rightarrow> product" where
  "line_product raw =
     (let parts = split_comma (strip raw)
      in \<lparr>product_name = strip (parts ! 1),
          product_price = \<bar>the (py_int (strip (parts ! 2)))\<bar>\<rparr>)"

section \<open>Requests that meet no storage failure\<close>

text \<open>None of the storage calls 0 to \<open>k\<close> of a request fails.\<close>

definition storage_ok :: "env \<Rightarrow> nat \<Rightarrow> bool" where
  "storage_ok env k = (\<forall>n \<in> set [0..<Suc k]. \<not> db_fails env n)"

text \<open>
  An addition targets the barcode \<open>b\<close> when the request asks for \<open>b\<close> and its catalog
  knows \<open>b\<close>. It goes through when none of its four storage calls fails.
\<close>

fun targets :: "string \<Rightarrow> addition \<Rightarrow> bool" where
  "targets b (Scan env form) =
     (scanned_barcode form = b \<and> load_products (PRODUCT_FILE env) b \<noteq> None)"
| "targets b (Add env b') = (b' = b \<and> load_products (PRODUCT_FILE env) b \<noteq> None)"

fun goes_through :: "addition \<Rightarrow> bool" where
  "goes_through (Scan env form) = storage_ok env 3"
| "goes_through (Add env b) = storage_ok env 3"

text \<open>
  The price an addition would insert can be bound: the price of \<open>b\<close> in the catalog of
  the request fits in 64 bits.
\<close>

fun price_fits :: "string \<Rightarrow> addition \<Rightarrow> bool" where
  "price_fits b (Scan env form) =
     (case load_products (PRODUCT_FILE env) b of
        None \<Rightarrow> False
      | Some p \<Rightarrow> bindable (product_price p))"
| "price_fits b (Add env b') =
     (case load_products (PRODUCT_FILE env) b of
        None \<Rightarrow> False
      | Some p \<Rightarrow> bindable (product_price p))"

section \<open>Example environments\<close>

text \<open>
  A catalog with one product, a clock and a draw for which \<open>generate_order_number\<close> is
  \<open>5107\<close>, a gateway client that accepts every signature and one that rejects every
  signature.
\<close>

definition accepting_client :: razorpay where
  "accepting_client =
     \<lparr>order_create = (\<lambda>d. Inr ''order_1''), verify_payment_signature = (\<lambda>p. Inr ())\<rparr>"

definition rejecting_client :: razorpay where
  "rejecting_client =
     \<lparr>order_create = (\<lambda>d. Inr ''order_1''),
      verify_payment_signature = (\<lambda>p. Inl SignatureVerificationError)\<rparr>"

definition shop_env :: "razorpay option \<Rightarrow> (nat \<Rightarrow> bool) \<Rightarrow> env" where
  "shop_env client fails =
     \<lparr>PRODUCT_FILE = Lines [''A1,Apple,50''], RAZORPAY_KEY_ID = ''rzp_test'',
      razorpay_client = client, time_now = 1700000005, random_draw = 7, db_fails = fails\<rparr>"

definition no_fault :: "nat \<Rightarrow> bool" where
  "no_fault n = False"

definition apple_line :: "int \<Rightarrow> cart_line" where
  "apple_line q = \<lparr>barcode = ''A1'', name = ''Apple'', price = 50, qty = q\<rparr>"

definition order_5107 :: order_row where
  "order_5107 =
     \<lparr>order_id = 1, order_number = ''5107'', order_total = 105, created_at = 1600000000,
      status = ''completed''\<rparr>"

section \<open>Facts about the payment transaction\<close>

lemma storage_ok_iff: "storage_ok env k \<longleftrightarrow> (\<forall>n \<le> k. \<not> db_fails env n)"
  by (auto simp add: storage_ok_def)

lemma storage_ok_3:
  "storage_ok env 3 \<longleftrightarrow>
     \<not> db_fails env 0 \<and> \<not> db_fails env 1 \<and> \<not> db_fails env 2 \<and> \<not> db_fails env 3"
  by (simp add: storage_ok_def upt_rec numeral_eq_Suc)

lemma cart_total_Nil: "cart_total [] = 0"
  by (simp add: cart_total_def)

lemma cart_total_if: "(if c \<noteq> [] then cart_total c else 0) = cart_total c"
  by (simp add: cart_total_Nil)

lemma str_nat_nonempty: "str_nat n \<noteq> []"
  by (subst str_nat.simps) simp

lemma generate_order_number_nonempty: "generate_order_number env \<noteq> []"
  by (simp add: generate_order_number_def Let_def str_nat_nonempty)

lemma generate_order_number_shop_env: "generate_order_number (shop_env c f) = ''5107''"
  by (simp add: generate_order_number_def shop_env_def digit_char_def str_nat.simps)

lemma shop_env_fields:
  "razorpay_client (shop_env c f) = c"
  "db_fails (shop_env c f) = f"
  "time_now (shop_env c f) = 1700000005"
  "PRODUCT_FILE (shop_env c f) = Lines [''A1,Apple,50'']"
  "RAZORPAY_KEY_ID (shop_env c f) = ''rzp_test''"
  by (simp_all add: shop_env_def)

text \<open>
  The block of \<open>payment_success\<close> under \<open>with\<close>: every failing step leaves the database
  as it was, and only the run in which all five storage calls succeed, the amount is
  finite and fits in 64 bits and the order number is new commits both writes.
\<close>

lemma with_db_payment_block:
  "with_db env db (payment_block env) =
     (if db_fails env 0 \<or> db_fails env 1 then (db, Inl SqliteError)
      else
        (case final_amount (cart_total (cart db)) of
           Inl e \<Rightarrow> (db, Inl e)
         | Inr fa \<Rightarrow>
             if db_fails env 2 then (db, Inl SqliteError)
             else if \<not> bindable fa then (db, Inl OverflowError)
             else if generate_order_number env \<in> set (map order_number (orders db))
                \<or> db_fails env 3 \<or> db_fails env 4
             then (db, Inl SqliteError)
             else (db\<lparr>orders := orders db @
                       [\<lparr>order_id = Suc (orders_seq db), order_number = generate_order_number env,
                         order_total = fa, created_at = time_now env, status = ''completed''\<rparr>],
                      orders_seq := Suc (orders_seq db), cart := []\<rparr>,
                   Inr (generate_order_number env, fa))))"
  by (simp add: with_db_def payment_block_def execute_def and_then_def insert_order_def
        delete_cart_def cart_total_if Let_def split: sum.splits)

lemma final_amount_0: "final_amount 0 = Inr 0"
  by (simp add: final_amount_def round_53_def DOUBLE_1_05_def bit_length.simps)

lemma final_amount_1000: "final_amount 1000 = Inr 1050"
  by (simp add: final_amount_def round_53_def DOUBLE_1_05_def bit_length.simps)

lemma final_amount_9e18: "final_amount 9000000000000000000 = Inr 9450000000000000000"
  by (simp add: final_amount_def round_53_def DOUBLE_1_05_def bit_length.simps)

lemma cart_total_single:
  "stored_integer (price i) \<Longrightarrow> stored_integer (qty i) \<Longrightarrow> cart_total [i] = price i * qty i"
  by (simp add: cart_total_def real_row_def line_total_def)

lemma cart_total_apples: "cart_total [apple_line 20] = 1000"
  by (simp add: cart_total_single apple_line_def stored_integer_def)

section \<open>Checkout and payment\<close>

text \<open>
  C2. In \<open>payment_success\<close> the order insert and the cart clear are one transition. Every
  call either leaves the whole database as it was and answers with an error status, or
  has emptied the cart, appended exactly one completed order and answers 200. When the
  insert or the clear or the commit fails, or the order number is already in the ledger
  so that the insert is refused, the database is unchanged (the cart is not cleared) and
  the caller gets an error status.
\<close>

theorem payment_success_atomic:
  "((db_after (payment_success env body db) = db \<and>
       400 \<le> http_status (response (payment_success env body db))) \<or>
    (cart (db_after (payment_success env body db)) = [] \<and>
       (\<exists>fa. orders (db_after (payment_success env body db)) =
          orders db @
            [\<lparr>order_id = Suc (orders_seq db), order_number = generate_order_number env,
              order_total = fa, created_at = time_now env, status = ''completed''\<rparr>]) \<and>
       http_status (response (payment_success env body db)) = 200)) \<and>
   (db_fails env 2 \<or> db_fails env 3 \<or> db_fails env 4 \<or>
      generate_order_number env \<in> set (map order_number (orders db)) \<longrightarrow>
    db_after (payment_success env body db) = db \<and>
    400 \<le> http_status (response (payment_success env body db)))"
  by (simp add: payment_success_def payment_error_def http_status_def with_db_payment_block
        split: option.splits sum.splits)

theorem payment_success_atomic_witness:
  "db_fails (shop_env (Some accepting_client) (\<lambda>n. n = 3)) 3 \<and>
   db_after (payment_success (shop_env (Some accepting_client) (\<lambda>n. n = 3)) (Some Map.empty)
       \<lparr>cart = [apple_line 20], orders = [], orders_seq = 0\<rparr>) =
     \<lparr>cart = [apple_line 20], orders = [], orders_seq = 0\<rparr> \<and>
   400 \<le> http_status (response (payment_success (shop_env (Some accepting_client) (\<lambda>n. n = 3))
       (Some Map.empty) \<lparr>cart = [apple_line 20], orders = [], orders_seq = 0\<rparr>))"
  using payment_success_atomic [of "shop_env (Some accepting_client) (\<lambda>n. n = 3)" "Some Map.empty"
      "\<lparr>cart = [apple_line 20], orders = [], orders_seq = 0\<rparr>"]
  by (simp add: shop_env_fields)

text \<open>
  C3. When the gateway client is configured and the signature check raises
  \<open>SignatureVerificationError\<close>, \<open>payment_success\<close> leaves the cart and the orders as they
  were, answers 400 with the verification error and sends the caller to the checkout page.
\<close>

theorem payment_success_signature_mismatch:
  assumes "razorpay_client env = Some client"
    and "verify_payment_signature client (params_dict payment_data) = Inl SignatureVerificationError"
  shows "db_after (payment_success env (Some payment_data) db) = db \<and>
         response (payment_success env (Some payment_data) db) =
           Json 400 [(''success'', JBool False),
                     (''error'', JStr ''Payment verification failed. Please contact support.''),
                     (''redirect'', JStr ''/checkout'')] \<and>
         flashed (payment_success env (Some payment_data) db) =
           [(''Payment verification failed. Please contact support.'', ''error'')] \<and>
         gateway_requests (payment_success env (Some payment_data) db) = []"
  using assms by (simp add: payment_success_def url_for_def)

theorem payment_success_signature_mismatch_witness:
  "razorpay_client (shop_env (Some rejecting_client) no_fault) = Some rejecting_client \<and>
   verify_payment_signature rejecting_client (params_dict Map.empty) =
     Inl SignatureVerificationError \<and>
   db_after (payment_success (shop_env (Some rejecting_client) no_fault) (Some Map.empty)
       \<lparr>cart = [apple_line 20], orders = [order_5107], orders_seq = 1\<rparr>) =
     \<lparr>cart = [apple_line 20], orders = [order_5107], orders_seq = 1\<rparr>"
  using payment_success_signature_mismatch [of "shop_env (Some rejecting_client) no_fault"
      rejecting_client Map.empty "\<lparr>cart = [apple_line 20], orders = [order_5107], orders_seq = 1\<rparr>"]
  by (simp add: shop_env_fields rejecting_client_def)

text \<open>
  C1 (amended). When the gateway client is configured, the signature check returns, no
  storage call fails, the generated order number is not yet in the ledger, the amount
  \<open>int(total * 1.05)\<close> of the cart is \<open>fa\<close> and \<open>fa\<close> fits in 64 bits, so that it can be
  bound to the insert, then \<open>payment_success\<close> empties the cart, appends exactly one order
  whose status is \<open>completed\<close> and whose total is \<open>fa\<close> (the amount, not the cart total),
  and answers 200 with the non-empty order number.
\<close>

theorem payment_success_commits:
  assumes "razorpay_client env = Some client"
    and "verify_payment_signature client (params_dict payment_data) = Inr ()"
    and "storage_ok env 4"
    and "generate_order_number env \<notin> set (map order_number (orders db))"
    and "final_amount (cart_total (cart db)) = Inr fa"
    and "bindable fa"
  shows "cart (db_after (payment_success env (Some payment_data) db)) = [] \<and>
         orders (db_after (payment_success env (Some payment_data) db)) =
           orders db @
             [\<lparr>order_id = Suc (orders_seq db), order_number = generate_order_number env,
               order_total = fa, created_at = time_now env, status = ''completed''\<rparr>] \<and>
         response (payment_success env (Some payment_data) db) =
           Json 200 [(''success'', JBool True),
                     (''message'', JStr (''Payment successful! Order #'' @ generate_order_number env)),
                     (''redirect'', JStr ''/'')] \<and>
         generate_order_number env \<noteq> []"
  using assms
  by (simp add: payment_success_def with_db_payment_block url_for_def
        generate_order_number_nonempty storage_ok_iff)

theorem payment_success_commits_witness:
  "razorpay_client (shop_env (Some accepting_client) no_fault) = Some accepting_client \<and>
   verify_payment_signature accepting_client (params_dict Map.empty) = Inr () \<and>
   storage_ok (shop_env (Some accepting_client) no_fault) 4 \<and>
   generate_order_number (shop_env (Some accepting_client) no_fault) \<notin>
     set (map order_number (orders \<lparr>cart = [apple_line 20], orders = [], orders_seq = 0\<rparr>)) \<and>
   final_amount (cart_total (cart \<lparr>cart = [apple_line 20], orders = [], orders_seq = 0\<rparr>)) =
     Inr 1050 \<and>
   bindable 1050 \<and>
   cart (db_after (payment_success (shop_env (Some accepting_client) no_fault) (Some Map.empty)
       \<lparr>cart = [apple_line 20], orders = [], orders_seq = 0\<rparr>)) = [] \<and>
   orders (db_after (payment_success (shop_env (Some accepting_client) no_fault) (Some Map.empty)
       \<lparr>cart = [apple_line 20], orders = [], orders_seq = 0\<rparr>)) =
     [\<lparr>order_id = 1, order_number = ''5107'', order_total = 1050, created_at = 1700000005,
       status = ''completed''\<rparr>]"
proof -
  have a: "razorpay_client (shop_env (Some accepting_client) no_fault) = Some accepting_client"
    by (simp add: shop_env_fields)
  have b: "verify_payment_signature accepting_client (params_dict Map.empty) = Inr ()"
    by (simp add: accepting_client_def)
  have c: "storage_ok (shop_env (Some accepting_client) no_fault) 4"
    by (simp add: storage_ok_iff shop_env_fields no_fault_def)
  have d: "generate_order_number (shop_env (Some accepting_client) no_fault) \<notin>
     set (map order_number (orders \<lparr>cart = [apple_line 20], orders = [], orders_seq = 0\<rparr>))"
    by simp
  have e: "final_amount (cart_total (cart \<lparr>cart = [apple_line 20], orders = [], orders_seq = 0\<rparr>)) =
     Inr 1050"
    by (simp add: cart_total_apples final_amount_1000)
  have f: "bindable 1050"
    by (simp add: bindable_def)
  show ?thesis
    using payment_success_commits [OF a b c d e f] a b c d e f
    by (simp add: generate_order_number_shop_env shop_env_fields)
qed

text \<open>
  C1 as stated fails three times. With 20 apples at 50 in the cart the order is written
  with total 1050 while the cart total is 1000; with order number 5107 already in the
  ledger a verified call answers 500 and leaves the cart as it was; and with one item
  priced 9000000000000000000 the amount 9450000000000000000 does not fit in 64 bits, the
  insert raises \<open>OverflowError\<close>, the call answers 500 and the cart stays.
\<close>

theorem payment_success_commits_counterexample:
  "verify_payment_signature accepting_client (params_dict Map.empty) = Inr () \<and>
   cart_total [apple_line 20] = 1000 \<and>
   orders (db_after (payment_success (shop_env (Some accepting_client) no_fault) (Some Map.empty)
       \<lparr>cart = [apple_line 20], orders = [], orders_seq = 0\<rparr>)) =
     [\<lparr>order_id = 1, order_number = ''5107'', order_total = 1050, created_at = 1700000005,
       status = ''completed''\<rparr>] \<and>
   db_after (payment_success (shop_env (Some accepting_client) no_fault) (Some Map.empty)
       \<lparr>cart = [apple_line 20], orders = [order_5107], orders_seq = 1\<rparr>) =
     \<lparr>cart = [apple_line 20], orders = [order_5107], orders_seq = 1\<rparr> \<and>
   http_status (response (payment_success (shop_env (Some accepting_client) no_fault)
       (Some Map.empty) \<lparr>cart = [apple_line 20], orders = [order_5107], orders_seq = 1\<rparr>)) = 500 \<and>
   final_amount (cart_total
       [\<lparr>barcode = ''A1'', name = ''Apple'', price = 9000000000000000000, qty = 1\<rparr>]) =
     Inr 9450000000000000000 \<and>
   db_after (payment_success (shop_env (Some accepting_client) no_fault) (Some Map.empty)
       \<lparr>cart = [\<lparr>barcode = ''A1'', name = ''Apple'', price = 9000000000000000000, qty = 1\<rparr>],
        orders = [], orders_seq = 0\<rparr>) =
     \<lparr>cart = [\<lparr>barcode = ''A1'', name = ''Apple'', price = 9000000000000000000, qty = 1\<rparr>],
      orders = [], orders_seq = 0\<rparr> \<and>
   http_status (response (payment_success (shop_env (Some accepting_client) no_fault)
       (Some Map.empty)
       \<lparr>cart = [\<lparr>barcode = ''A1'', name = ''Apple'', price = 9000000000000000000, qty = 1\<rparr>],
        orders = [], orders_seq = 0\<rparr>)) = 500"
proof -
  have big: "cart_total
       [\<lparr>barcode = ''A1'', name = ''Apple'', price = 9000000000000000000, qty = 1\<rparr>] =
     9000000000000000000"
    by (simp add: cart_total_single stored_integer_def)
  show ?thesis
    by (simp add: payment_success_def with_db_payment_block generate_order_number_shop_env
          accepting_client_def cart_total_apples final_amount_1000 order_5107_def
          payment_error_def http_status_def shop_env_fields no_fault_def big
          final_amount_9e18 bindable_def)
qed

text \<open>
  C10 (amended). \<open>payment_success\<close> has no guard on an empty cart: when the client is
  configured, the signature check returns, no storage call fails and the generated order
  number is not yet in the ledger, a call on an empty cart answers 200 and appends an
  order with total 0 and status \<open>completed\<close>.
\<close>

theorem payment_success_empty_cart:
  assumes "razorpay_client env = Some client"
    and "verify_payment_signature client (params_dict payment_data) = Inr ()"
    and "cart db = []"
    and "storage_ok env 4"
    and "generate_order_number env \<notin> set (map order_number (orders db))"
  shows "orders (db_after (payment_success env (Some payment_data) db)) =
           orders db @
             [\<lparr>order_id = Suc (orders_seq db), order_number = generate_order_number env,
               order_total = 0, created_at = time_now env, status = ''completed''\<rparr>] \<and>
         cart (db_after (payment_success env (Some payment_data) db)) = [] \<and>
         response (payment_success env (Some payment_data) db) =
           Json 200 [(''success'', JBool True),
                     (''message'', JStr (''Payment successful! Order #'' @ generate_order_number env)),
                     (''redirect'', JStr ''/'')]"
  using assms
  by (simp add: payment_success_def with_db_payment_block url_for_def cart_total_Nil
        final_amount_0 storage_ok_iff bindable_def)

theorem payment_success_empty_cart_witness:
  "razorpay_client (shop_env (Some accepting_client) no_fault) = Some accepting_client \<and>
   verify_payment_signature accepting_client (params_dict Map.empty) = Inr () \<and>
   cart \<lparr>cart = [], orders = [], orders_seq = 0\<rparr> = [] \<and>
   storage_ok (shop_env (Some accepting_client) no_fault) 4 \<and>
   generate_order_number (shop_env (Some accepting_client) no_fault) \<notin>
     set (map order_number (orders \<lparr>cart = [], orders = [], orders_seq = 0\<rparr>)) \<and>
   orders (db_after (payment_success (shop_env (Some accepting_client) no_fault) (Some Map.empty)
       \<lparr>cart = [], orders = [], orders_seq = 0\<rparr>)) =
     [\<lparr>order_id = 1, order_number = ''5107'', order_total = 0, created_at = 1700000005,
       status = ''completed''\<rparr>]"
proof -
  have a: "razorpay_client (shop_env (Some accepting_client) no_fault) = Some accepting_client"
    by (simp add: shop_env_fields)
  have b: "verify_payment_signature accepting_client (params_dict Map.empty) = Inr ()"
    by (simp add: accepting_client_def)
  have c: "cart \<lparr>cart = [], orders = [], orders_seq = 0\<rparr> = []"
    by simp
  have d: "storage_ok (shop_env (Some accepting_client) no_fault) 4"
    by (simp add: storage_ok_iff shop_env_fields no_fault_def)
  have e: "generate_order_number (shop_env (Some accepting_client) no_fault) \<notin>
     set (map order_number (orders \<lparr>cart = [], orders = [], orders_seq = 0\<rparr>))"
    by simp
  show ?thesis
    using payment_success_empty_cart [OF a b c d e] a b d
    by (simp add: generate_order_number_shop_env shop_env_fields)
qed

text \<open>
  C10 as stated fails when the generated order number 5107 is already in the ledger: the
  verified call on the empty cart answers 500 and writes no order.
\<close>

theorem payment_success_empty_cart_counterexample:
  "verify_payment_signature accepting_client (params_dict Map.empty) = Inr () \<and>
   response (payment_success (shop_env (Some accepting_client) no_fault) (Some Map.empty)
       \<lparr>cart = [], orders = [order_5107], orders_seq = 1\<rparr>) =
     Json 500 [(''success'', JBool False),
               (''error'', JStr ''Error processing payment. Please contact support.''),
               (''redirect'', JStr ''/checkout'')] \<and>
   orders (db_after (payment_success (shop_env (Some accepting_client) no_fault) (Some Map.empty)
       \<lparr>cart = [], orders = [order_5107], orders_seq = 1\<rparr>)) = [order_5107]"
  by (simp add: payment_success_def with_db_payment_block generate_order_number_shop_env
        accepting_client_def cart_total_Nil final_amount_0 order_5107_def payment_error_def
        url_for_def shop_env_fields no_fault_def bindable_def)




text \<open>
  C5 (amended). With an empty cart, \<open>checkout\<close> redirects to the cart page, and
  \<open>create_order\<close> fails without a request to the gateway; neither changes the cart or the
  orders. \<open>create_order\<close> answers 400 with \<open>Cart is empty\<close> when the gateway client is
  configured and the cart can be read, and 500 when no client is configured.
\<close>

theorem empty_cart_checkout:
  assumes "cart db = []"
  shows "db_after (checkout env db) = db \<and>
         response (checkout env db) = Redirect ''/'' \<and>
         gateway_requests (checkout env db) = [] \<and>
         db_after (create_order env body db) = db \<and>
         gateway_requests (create_order env body db) = [] \<and>
         400 \<le> http_status (response (create_order env body db)) \<and>
         (razorpay_client env \<noteq> None \<and> \<not> db_fails env 0 \<and> \<not> db_fails env 1 \<longrightarrow>
            response (create_order env body db) = Json 400 [(''error'', JStr ''Cart is empty'')]) \<and>
         (razorpay_client env = None \<longrightarrow>
            response (create_order env body db) =
              Json 500 [(''error'', JStr ''Razorpay not configured'')])"
  using assms
  by (auto simp add: checkout_def create_order_def with_db_def execute_def and_then_def
        http_status_def url_for_def split: option.splits)

theorem empty_cart_checkout_witness:
  "cart \<lparr>cart = [], orders = [order_5107], orders_seq = 1\<rparr> = [] \<and>
   razorpay_client (shop_env (Some accepting_client) no_fault) \<noteq> None \<and>
   \<not> db_fails (shop_env (Some accepting_client) no_fault) 0 \<and>
   \<not> db_fails (shop_env (Some accepting_client) no_fault) 1 \<and>
   response (checkout (shop_env (Some accepting_client) no_fault)
       \<lparr>cart = [], orders = [order_5107], orders_seq = 1\<rparr>) = Redirect ''/'' \<and>
   response (create_order (shop_env (Some accepting_client) no_fault) (Some Map.empty)
       \<lparr>cart = [], orders = [order_5107], orders_seq = 1\<rparr>) =
     Json 400 [(''error'', JStr ''Cart is empty'')]"
  using empty_cart_checkout [of "\<lparr>cart = [], orders = [order_5107], orders_seq = 1\<rparr>"
      "shop_env (Some accepting_client) no_fault" "Some Map.empty"]
  by (simp add: shop_env_fields no_fault_def)

text \<open>
  C5 as stated fails when no gateway client is configured: \<open>create_order\<close> on the empty
  cart answers 500, which is no client error.
\<close>

theorem empty_cart_checkout_counterexample:
  "cart \<lparr>cart = [], orders = [], orders_seq = 0\<rparr> = [] \<and>
   response (create_order (shop_env None no_fault) None
       \<lparr>cart = [], orders = [], orders_seq = 0\<rparr>) =
     Json 500 [(''error'', JStr ''Razorpay not configured'')] \<and>
   \<not> (400 \<le> http_status (response (create_order (shop_env None no_fault) None
           \<lparr>cart = [], orders = [], orders_seq = 0\<rparr>)) \<and>
      http_status (response (create_order (shop_env None no_fault) None
           \<lparr>cart = [], orders = [], orders_seq = 0\<rparr>)) < 500)"
  by (simp add: create_order_def http_status_def shop_env_fields)

section \<open>Facts about doubles and the addition of SQLite\<close>

lemma bit_length_ge: "n \<noteq> 0 \<Longrightarrow> 2 ^ (bit_length n - 1) \<le> n"
proof (induction n rule: bit_length.induct)
  case (1 n)
  show ?case
  proof (cases "n div 2 = 0")
    case True
    with "1.prems" have "n = 1" by (simp add: div_eq_0_iff)
    then show ?thesis by (simp add: bit_length.simps)
  next
    case False
    with "1.IH" "1.prems" have ih: "2 ^ (bit_length (n div 2) - 1) \<le> n div 2" by simp
    from False have pos: "0 < bit_length (n div 2)" by (subst bit_length.simps) simp
    have "bit_length n - 1 = bit_length (n div 2)"
      using "1.prems" by (subst bit_length.simps) simp
    then have "(2::nat) ^ (bit_length n - 1) = 2 ^ bit_length (n div 2)"
      by simp
    also have "\<dots> = 2 * 2 ^ (bit_length (n div 2) - 1)"
      using pos by (cases "bit_length (n div 2)") simp_all
    also have "\<dots> \<le> 2 * (n div 2)"
      using ih by simp
    also have "\<dots> \<le> n"
      by simp
    finally show ?thesis .
  qed
qed

lemma round_53_ge:
  assumes "0 < n"
  shows "0 < round_53 n" and "2 \<le> n \<Longrightarrow> 2 \<le> round_53 n"
proof -
  have "0 < round_53 n \<and> (2 \<le> n \<longrightarrow> 2 \<le> round_53 n)"
  proof (cases "bit_length n \<le> 53")
    case True
    with assms show ?thesis by (simp add: round_53_def)
  next
    case False
    define s where "s = bit_length n - 53"
    define q where "q = n div 2 ^ s"
    from False have s: "0 < s" by (simp add: s_def)
    have "(2::nat) ^ s \<le> 2 ^ (bit_length n - 1)"
      by (intro power_increasing) (simp_all add: s_def)
    also have "\<dots> \<le> n" using assms by (intro bit_length_ge) simp
    finally have q: "1 \<le> q"
      by (simp add: q_def Suc_le_eq div_greater_zero_iff)
    have "(2::nat) ^ 1 \<le> 2 ^ s" using s by (intro power_increasing) simp_all
    then have two: "(2::nat) \<le> 2 ^ s" by simp
    have "2 \<le> q * 2 ^ s" using q two by (metis mult_le_mono nat_mult_1)
    then have x: "2 \<le> (if 2 ^ (s - 1) < n mod 2 ^ s \<or> (n mod 2 ^ s = 2 ^ (s - 1) \<and> odd q)
                    then q + 1 else q) * 2 ^ s"
      by (simp add: add_mult_distrib)
    have r: "round_53 n =
        (if 2 ^ (s - 1) < n mod 2 ^ s \<or> (n mod 2 ^ s = 2 ^ (s - 1) \<and> odd q)
         then q + 1 else q) * 2 ^ s"
      using False by (simp add: round_53_def Let_def s_def [symmetric] q_def [symmetric])
    from x have "2 \<le> round_53 n" unfolding r .
    then show ?thesis by simp
  qed
  then show "0 < round_53 n" and "2 \<le> n \<Longrightarrow> 2 \<le> round_53 n" by simp_all
qed

lemma to_double_pos: "1 \<le> x \<Longrightarrow> 1 \<le> to_double x"
  using round_53_ge(1) [of "nat \<bar>x\<bar>"] by (simp add: to_double_def)

lemma to_double_ge_2: "2 \<le> x \<Longrightarrow> 2 \<le> to_double x"
  using round_53_ge(2) [of "nat \<bar>x\<bar>"] by (simp add: to_double_def)


lemma to_double_minus_1: "to_double (- 1) = - 1"
  by (simp add: to_double_def round_53_def bit_length.simps)


lemma sqlite_add_dec: "2 \<le> a \<Longrightarrow> 1 \<le> sqlite_add a (- 1)"
  using to_double_ge_2 [of a] to_double_pos [of "to_double a + to_double (- 1)"]
  by (simp add: sqlite_add_def to_double_minus_1)


lemma sqlite_add_exact:
  "stored_integer a \<Longrightarrow> bindable (a + p) \<Longrightarrow> sqlite_add a p = a + p"
  by (simp add: sqlite_add_def bindable_def)

section \<open>The cart handlers and the invariant\<close>

lemma select_qty_None: "select_qty b db = None \<longleftrightarrow> b \<notin> set (map barcode (cart db))"
  by (auto simp add: select_qty_def find_None_iff)

lemma with_db_home_block:
  "with_db env db (home_block env b p q) =
     (if db_fails env 0 \<or> db_fails env 1 \<or> db_fails env 2 then (db, Inl SqliteError)
      else if b \<in> set (map barcode (cart db)) then
        (if \<not> bindable q then (db, Inl OverflowError)
         else if db_fails env 3 then (db, Inl SqliteError)
         else (update_rows q b db, Inr ()))
      else
        (if \<not> bindable (product_price p) \<or> \<not> bindable q then (db, Inl OverflowError)
         else if db_fails env 3 then (db, Inl SqliteError)
         else (db\<lparr>cart := cart db @
                     [\<lparr>barcode = b, name = product_name p, price = product_price p, qty = q\<rparr>]\<rparr>,
               Inr ())))"
  using select_qty_None [of b db]
  by (cases "select_qty b db")
     (auto simp add: with_db_def home_block_def execute_def and_then_def insert_cart_def
        update_qty_def)

lemma bindable_unit: "bindable 1" "bindable (- 1)"
  by (simp_all add: bindable_def)










lemma add_to_cart_block_cases:
  "execute env 0 (add_to_cart_block env b p db) =
     (if db_fails env 0 \<or> db_fails env 1 \<or> db_fails env 2 then Inl SqliteError
      else if b \<in> set (map barcode (cart db))
        then Inr (update_rows 1 b db, ''Added another '' @ product_name p @ '' to cart!'')
      else if \<not> bindable (product_price p) then Inl OverflowError
      else Inr (db\<lparr>cart := cart db @
                  [\<lparr>barcode = b, name = product_name p, price = product_price p, qty = 1\<rparr>]\<rparr>,
                ''Added '' @ product_name p @ '' to cart!''))"
  using select_qty_None [of b db]
  by (cases "select_qty b db")
     (auto simp add: add_to_cart_block_def execute_def and_then_def insert_cart_def
        update_qty_def bindable_unit)

lemma execute_Inr:
  "execute env n (Inr x) = (if db_fails env n then Inl SqliteError else Inr x)"
  by (simp add: execute_def)








lemma line_qty_None: "line_qty b c = None \<longleftrightarrow> b \<notin> set (map barcode c)"
  by (auto simp add: line_qty_def find_None_iff)







section \<open>The catalog loader\<close>

lemma load_line_excluded: "line_excluded raw \<Longrightarrow> load_line m raw = m"
  by (auto simp add: line_excluded_def load_line_def Let_def
        split: list.splits option.splits)

lemma load_line_included:
  assumes "\<not> line_excluded raw"
  shows "load_line m raw = m(line_barcode raw \<mapsto> line_product raw)"
proof -
  from assms have len: "length (split_comma (strip raw)) = 3"
    by (simp add: line_excluded_def Let_def)
  then obtain a b c where parts: "split_comma (strip raw) = [a, b, c]"
    by (auto simp add: numeral_3_eq_3 length_Suc_conv)
  from assms parts obtain v where v: "py_int (strip c) = Some v" and a: "strip a \<noteq> []"
    by (auto simp add: line_excluded_def)
  from parts have "strip raw \<noteq> []" by auto
  with parts v a show ?thesis
    by (simp add: load_line_def line_barcode_def line_product_def)
qed

lemma fold_load_line:
  "fold (\<lambda>line products. load_line products line) ls m k =
     (case filter (\<lambda>l. \<not> line_excluded l \<and> line_barcode l = k) ls of
        [] \<Rightarrow> m k
      | x # xs \<Rightarrow> Some (line_product (last (x # xs))))"
proof (induction ls rule: rev_induct)
  case Nil
  then show ?case by simp
next
  case (snoc l ls)
  show ?case
  proof (cases "line_excluded l")
    case True
    with snoc show ?thesis by (simp add: load_line_excluded)
  next
    case False
    with snoc show ?thesis
      by (auto simp add: load_line_included split: list.splits)
  qed
qed


lemma load_products_empty_key: "load_products f [] = None"
proof (cases f)
  case (Lines ls)
  have "filter (\<lambda>l. \<not> line_excluded l \<and> line_barcode l = []) ls = []"
    by (auto simp add: filter_empty_conv line_excluded_def line_barcode_def Let_def)
  with Lines show ?thesis
    using fold_load_line [of ls Map.empty "[]"] by (simp add: load_products_def)
qed (simp_all add: load_products_def)



section \<open>Repeated scans of one barcode\<close>

lemma py_int_1: "py_int ''1'' = Some 1"
  by (simp add: py_int_def is_int_space_def strip_def is_space_def parse_unsigned_def is_digit_def digit_val_def)

lemma form_qty_requested: "form_qty form = requested_qty form"
  by (simp add: form_qty_def requested_qty_def max_def py_int_1 split: option.splits)

lemma addition_qty_ge_1: "1 \<le> addition_qty r"
  by (cases r) (simp_all add: requested_qty_def split: option.splits)

lemma sum_addition_qty_nonneg: "0 \<le> sum_list (map addition_qty rs)"
proof (induction rs)
  case Nil
  then show ?case by simp
next
  case (Cons r rs)
  then show ?case using addition_qty_ge_1 [of r] by simp
qed

lemma line_qty_update_rows:
  "line_qty b c = Some k \<Longrightarrow>
   line_qty b (map (\<lambda>l. if barcode l = b then l\<lparr>qty := sqlite_add (qty l) d\<rparr> else l) c) =
     Some (sqlite_add k d)"
  by (induction c) (auto simp add: line_qty_def)

lemma line_qty_append_new:
  "line_qty b c = None \<Longrightarrow> barcode l = b \<Longrightarrow> line_qty b (c @ [l]) = Some (qty l)"
  by (induction c) (auto simp add: line_qty_def split: if_splits)

text \<open>
  One scan of a known product, with no storage failure, a price and a quantity that can
  be bound.
\<close>

lemma home_post_known:
  assumes "scanned_barcode form = b" and "b \<noteq> []"
    and "load_products (PRODUCT_FILE env) b = Some p"
    and "\<forall>n \<le> 3. \<not> db_fails env n"
    and "bindable (product_price p)" and "bindable (requested_qty form)"
  shows "line_qty b (cart (db_after (home_post env form db))) =
           Some (case line_qty b (cart db) of
                   None \<Rightarrow> requested_qty form
                 | Some k \<Rightarrow> sqlite_add k (requested_qty form))"
proof (cases "line_qty b (cart db)")
  case None
  then have "b \<notin> set (map barcode (cart db))"
    by (simp add: line_qty_None)
  with assms None show ?thesis
    using line_qty_append_new [of b "cart db"
        "\<lparr>barcode = b, name = product_name p, price = product_price p, qty = requested_qty form\<rparr>"]
    by (simp add: home_post_def Let_def with_db_home_block scanned_barcode_def
          form_qty_requested)
next
  case (Some k)
  then have "b \<in> set (map barcode (cart db))"
    using line_qty_None [of b "cart db"] by auto
  with assms Some show ?thesis
    using line_qty_update_rows [of b "cart db" k "requested_qty form"]
    by (simp add: home_post_def Let_def with_db_home_block scanned_barcode_def
          form_qty_requested update_rows_def)
qed

text \<open>
  One click in the shop on a known product, with no storage failure and a price that can
  be bound.
\<close>

lemma add_to_cart_known:
  assumes "load_products (PRODUCT_FILE env) b = Some p"
    and "\<forall>n \<le> 3. \<not> db_fails env n"
    and "bindable (product_price p)"
  shows "line_qty b (cart (db_after (add_to_cart env b db))) =
           Some (case line_qty b (cart db) of None \<Rightarrow> 1 | Some k \<Rightarrow> sqlite_add k 1)"
proof (cases "line_qty b (cart db)")
  case None
  then have "b \<notin> set (map barcode (cart db))"
    by (simp add: line_qty_None)
  with assms None show ?thesis
    using line_qty_append_new [of b "cart db"
        "\<lparr>barcode = b, name = product_name p, price = product_price p, qty = 1\<rparr>"]
    by (simp add: add_to_cart_def add_to_cart_block_cases execute_Inr)
next
  case (Some k)
  then have "b \<in> set (map barcode (cart db))"
    using line_qty_None [of b "cart db"] by auto
  with assms Some show ?thesis
    using line_qty_update_rows [of b "cart db" k 1]
    by (simp add: add_to_cart_def add_to_cart_block_cases execute_Inr update_rows_def)
qed

lemma run_addition_known:
  assumes "targets b r" and "goes_through r" and "price_fits b r"
    and "bindable (addition_qty r)"
  shows "line_qty b (cart (run_addition r db)) =
           Some (case line_qty b (cart db) of
                   None \<Rightarrow> addition_qty r
                 | Some k \<Rightarrow> sqlite_add k (addition_qty r))"
proof (cases r)
  case (Scan env form)
  with assms obtain p where p: "load_products (PRODUCT_FILE env) b = Some p"
    and sb: "scanned_barcode form = b" and nf: "\<forall>n \<le> 3. \<not> db_fails env n"
    by (auto simp add: storage_ok_iff)
  have b: "b \<noteq> []"
    using p load_products_empty_key [of "PRODUCT_FILE env"] by auto
  have pf: "bindable (product_price p)"
    using assms(3) Scan p by simp
  have qf: "bindable (requested_qty form)"
    using assms(4) Scan by simp
  show ?thesis
    using home_post_known [OF sb b p nf pf qf, of db] Scan by (simp split: option.splits)
next
  case (Add env b')
  with assms obtain p where p: "load_products (PRODUCT_FILE env) b = Some p"
    and bb: "b' = b" and nf: "\<forall>n \<le> 3. \<not> db_fails env n"
    by (auto simp add: storage_ok_iff)
  have pf: "bindable (product_price p)"
    using assms(3) Add p by simp
  show ?thesis
    using add_to_cart_known [OF p nf pf, of db] Add bb by (simp split: option.splits)
qed

text \<open>An addition that meets a storage failure leaves the database as it was.\<close>

lemma run_addition_failed:
  assumes "targets b r" and "\<not> goes_through r"
  shows "run_addition r db = db"
proof (cases r)
  case (Scan env form)
  with assms have "db_fails env 0 \<or> db_fails env 1 \<or> db_fails env 2 \<or> db_fails env 3"
    by (auto simp add: storage_ok_3)
  then show ?thesis
    using Scan
    by (auto simp add: home_post_def Let_def with_db_home_block split: option.splits)
next
  case (Add env b')
  with assms have "db_fails env 0 \<or> db_fails env 1 \<or> db_fails env 2 \<or> db_fails env 3"
    by (auto simp add: storage_ok_3)
  then show ?thesis
    using Add
    by (auto simp add: add_to_cart_def add_to_cart_block_cases execute_Inr
          split: option.splits)
qed

text \<open>
  A sequence of additions on a line that holds \<open>k\<close> (0 when there is no line), as long
  as the sum stays below \<open>2 ^ 63\<close>.
\<close>

lemma run_additions_from:
  assumes "list_all (targets b) rs" and "list_all (price_fits b) rs"
    and "(case line_qty b (cart db) of None \<Rightarrow> 0 | Some k \<Rightarrow> k) = k0"
    and "0 \<le> k0"
    and "k0 + sum_list (map addition_qty (filter goes_through rs)) < 2 ^ 63"
  shows "line_qty b (cart (run_additions rs db)) =
           (case filter goes_through rs of
              [] \<Rightarrow> line_qty b (cart db)
            | x # xs \<Rightarrow> Some (k0 + sum_list (map addition_qty (x # xs))))"
  using assms
proof (induction rs arbitrary: db k0)
  case Nil
  then show ?case by simp
next
  case (Cons r rs)
  then have r: "targets b r" and rs: "list_all (targets b) rs"
    and pr: "price_fits b r" and prs: "list_all (price_fits b) rs" by simp_all
  show ?case
  proof (cases "goes_through r")
    case True
    define q where "q = addition_qty r"
    define rest where "rest = sum_list (map addition_qty (filter goes_through rs))"
    have q1: "1 \<le> q" using addition_qty_ge_1 [of r] by (simp add: q_def)
    have rest0: "0 \<le> rest" using sum_addition_qty_nonneg by (simp add: rest_def)
    have bound: "k0 + q + rest < 2 ^ 63"
      using Cons.prems(5) True by (simp add: q_def rest_def add.assoc)
    have qb: "bindable (addition_qty r)"
      using q1 rest0 bound Cons.prems(4) by (simp add: bindable_def q_def)
    have exact: "sqlite_add k0 q = k0 + q"
      using q1 rest0 bound Cons.prems(4)
      by (intro sqlite_add_exact) (simp_all add: stored_integer_def bindable_def)
    have "line_qty b (cart (run_addition r db)) = Some (k0 + q)"
    proof (cases "line_qty b (cart db)")
      case None
      with Cons.prems(3) have "k0 = 0" by simp
      with None show ?thesis
        using run_addition_known [OF r True pr qb, of db] by (simp add: q_def)
    next
      case (Some k)
      with Cons.prems(3) have "k = k0" by simp
      with Some exact show ?thesis
        using run_addition_known [OF r True pr qb, of db] by (simp add: q_def)
    qed
    then have after: "(case line_qty b (cart (run_addition r db)) of None \<Rightarrow> 0 | Some k \<Rightarrow> k) =
        k0 + q" and some: "line_qty b (cart (run_addition r db)) = Some (k0 + q)"
      by simp_all
    have nn: "0 \<le> k0 + q" using q1 Cons.prems(4) by simp
    have bd: "k0 + q + sum_list (map addition_qty (filter goes_through rs)) < 2 ^ 63"
      using bound by (simp add: rest_def)
    show ?thesis
      using Cons.IH [OF rs prs after nn bd] True some
      by (simp add: q_def add.assoc split: list.splits)
  next
    case False
    then show ?thesis
      using Cons.IH [OF rs prs, of db k0] Cons.prems(3,4,5)
        run_addition_failed [OF r False, of db] by simp
  qed
qed

text \<open>
  C8 (amended). A sequence of additions (scans by \<open>POST /\<close>, clicks by
  \<open>GET /add-to-cart\<close>) that all target one barcode known to each request's catalog, at a
  price that fits in 64 bits, starting from a cart without that barcode: as long as the
  sum of the requested quantities, each raised to at least 1 (1 when the field is missing
  or no integer, 1 for a click), over the additions that met no storage failure stays
  below \<open>2 ^ 63\<close>, the quantity of the line afterwards is that sum, and there is no line
  when no addition went through; an addition stopped by a storage failure adds nothing.
  When all of a non-empty sequence go through, it is the sum over the whole sequence.
\<close>

theorem additions_sum_quantities:
  assumes "list_all (targets b) rs"
    and "list_all (price_fits b) rs"
    and "line_qty b (cart db) = None"
    and "sum_list (map addition_qty (filter goes_through rs)) < 2 ^ 63"
  shows "line_qty b (cart (run_additions rs db)) =
           (case filter goes_through rs of
              [] \<Rightarrow> None
            | x # xs \<Rightarrow> Some (sum_list (map addition_qty (x # xs)))) \<and>
         (rs \<noteq> [] \<and> list_all goes_through rs \<longrightarrow>
            line_qty b (cart (run_additions rs db)) = Some (sum_list (map addition_qty rs)))"
proof -
  have general: "line_qty b (cart (run_additions rs db)) =
           (case filter goes_through rs of
              [] \<Rightarrow> None
            | x # xs \<Rightarrow> Some (sum_list (map addition_qty (x # xs))))"
    using run_additions_from [OF assms(1,2), of db 0] assms(3,4) by (simp split: list.splits)
  have "filter goes_through rs = rs" if "list_all goes_through rs"
    using that by (simp add: list_all_iff)
  with general show ?thesis by (auto split: list.splits)
qed

lemma load_products_shop:
  "load_products (Lines [''A1,Apple,50'']) ''A1'' =
     Some \<lparr>product_name = ''Apple'', product_price = 50\<rparr>"
  by (simp add: load_products_def load_line_def strip_def is_space_def py_int_def
        is_int_space_def parse_unsigned_def is_digit_def digit_val_def)

theorem additions_sum_quantities_witness:
  "list_all (targets ''A1'')
     [Scan (shop_env None no_fault) [''barcode'' \<mapsto> ''A1''],
      Scan (shop_env None no_fault) [''barcode'' \<mapsto> '' A1 '', ''qty'' \<mapsto> ''3''],
      Add (shop_env None no_fault) ''A1'',
      Scan (shop_env None no_fault) [''barcode'' \<mapsto> ''A1'', ''qty'' \<mapsto> ''x'']] \<and>
   list_all (price_fits ''A1'')
     [Scan (shop_env None no_fault) [''barcode'' \<mapsto> ''A1''],
      Scan (shop_env None no_fault) [''barcode'' \<mapsto> '' A1 '', ''qty'' \<mapsto> ''3''],
      Add (shop_env None no_fault) ''A1'',
      Scan (shop_env None no_fault) [''barcode'' \<mapsto> ''A1'', ''qty'' \<mapsto> ''x'']] \<and>
   list_all goes_through
     [Scan (shop_env None no_fault) [''barcode'' \<mapsto> ''A1''],
      Scan (shop_env None no_fault) [''barcode'' \<mapsto> '' A1 '', ''qty'' \<mapsto> ''3''],
      Add (shop_env None no_fault) ''A1'',
      Scan (shop_env None no_fault) [''barcode'' \<mapsto> ''A1'', ''qty'' \<mapsto> ''x'']] \<and>
   line_qty ''A1'' (cart \<lparr>cart = [], orders = [], orders_seq = 0\<rparr>) = None \<and>
   sum_list (map addition_qty (filter goes_through
     [Scan (shop_env None no_fault) [''barcode'' \<mapsto> ''A1''],
      Scan (shop_env None no_fault) [''barcode'' \<mapsto> '' A1 '', ''qty'' \<mapsto> ''3''],
      Add (shop_env None no_fault) ''A1'',
      Scan (shop_env None no_fault) [''barcode'' \<mapsto> ''A1'', ''qty'' \<mapsto> ''x'']])) < 2 ^ 63 \<and>
   line_qty ''A1'' (cart (run_additions
     [Scan (shop_env None no_fault) [''barcode'' \<mapsto> ''A1''],
      Scan (shop_env None no_fault) [''barcode'' \<mapsto> '' A1 '', ''qty'' \<mapsto> ''3''],
      Add (shop_env None no_fault) ''A1'',
      Scan (shop_env None no_fault) [''barcode'' \<mapsto> ''A1'', ''qty'' \<mapsto> ''x'']]
     \<lparr>cart = [], orders = [], orders_seq = 0\<rparr>)) = Some 6"
proof -
  let ?rs = "[Scan (shop_env None no_fault) [''barcode'' \<mapsto> ''A1''],
      Scan (shop_env None no_fault) [''barcode'' \<mapsto> '' A1 '', ''qty'' \<mapsto> ''3''],
      Add (shop_env None no_fault) ''A1'',
      Scan (shop_env None no_fault) [''barcode'' \<mapsto> ''A1'', ''qty'' \<mapsto> ''x'']]"
  have ne: "?rs \<noteq> []" by simp
  have c: "list_all (targets ''A1'') ?rs"
    by (simp add: scanned_barcode_def strip_def is_space_def shop_env_fields
          load_products_shop)
  have p: "list_all (price_fits ''A1'') ?rs"
    by (simp add: shop_env_fields load_products_shop bindable_def)
  have g: "list_all goes_through ?rs"
    by (simp add: storage_ok_iff shop_env_fields no_fault_def)
  have d: "line_qty ''A1'' (cart \<lparr>cart = [], orders = [], orders_seq = 0\<rparr>) = None"
    by (simp add: line_qty_def)
  have f: "filter goes_through ?rs = ?rs"
    using g by (simp only: filter_id_conv list_all_iff) 
  have e: "sum_list (map addition_qty ?rs) = 6"
    by (simp add: requested_qty_def py_int_def is_int_space_def parse_unsigned_def
          is_digit_def digit_val_def)
  have s: "sum_list (map addition_qty (filter goes_through ?rs)) < 2 ^ 63"
    by (simp only: f e) simp
  have "line_qty ''A1'' (cart (run_additions ?rs \<lparr>cart = [], orders = [], orders_seq = 0\<rparr>)) =
          Some (sum_list (map addition_qty ?rs))"
    using additions_sum_quantities [OF c p d s, THEN conjunct2] ne g by blast
  with c p g d e s show ?thesis by (simp only: simp_thms)
qed

text \<open>
  C8 as stated fails three times. A scan that meets a storage failure adds nothing: the
  scan of 3 apples whose update fails leaves no line. A quantity that does not fit in 64
  bits cannot be bound: the scan of 9223372036854775808 apples ends in an uncaught
  \<open>OverflowError\<close> and leaves no line. And a sum that leaves the 64-bit range is kept as
  a double: 9223372036854775807 apples and then 2 more leave the quantity
  9223372036854775808, not 9223372036854775809.
\<close>

theorem additions_sum_quantities_counterexample:
  "list_all (targets ''A1'')
     [Scan (shop_env None (\<lambda>n. n = 2)) [''barcode'' \<mapsto> ''A1'', ''qty'' \<mapsto> ''3'']] \<and>
   addition_qty (Scan (shop_env None (\<lambda>n. n = 2)) [''barcode'' \<mapsto> ''A1'', ''qty'' \<mapsto> ''3'']) = 3 \<and>
   line_qty ''A1'' (cart (run_additions
     [Scan (shop_env None (\<lambda>n. n = 2)) [''barcode'' \<mapsto> ''A1'', ''qty'' \<mapsto> ''3'']]
     \<lparr>cart = [], orders = [], orders_seq = 0\<rparr>)) = None \<and>
   list_all (targets ''A1'')
     [Scan (shop_env None no_fault) [''barcode'' \<mapsto> ''A1'', ''qty'' \<mapsto> ''9223372036854775808'']] \<and>
   addition_qty (Scan (shop_env None no_fault)
     [''barcode'' \<mapsto> ''A1'', ''qty'' \<mapsto> ''9223372036854775808'']) = 9223372036854775808 \<and>
   response (home_post (shop_env None no_fault)
     [''barcode'' \<mapsto> ''A1'', ''qty'' \<mapsto> ''9223372036854775808'']
     \<lparr>cart = [], orders = [], orders_seq = 0\<rparr>) = Uncaught OverflowError \<and>
   line_qty ''A1'' (cart (run_additions
     [Scan (shop_env None no_fault) [''barcode'' \<mapsto> ''A1'', ''qty'' \<mapsto> ''9223372036854775808'']]
     \<lparr>cart = [], orders = [], orders_seq = 0\<rparr>)) = None \<and>
   list_all (targets ''A1'')
     [Scan (shop_env None no_fault) [''barcode'' \<mapsto> ''A1'', ''qty'' \<mapsto> ''9223372036854775807''],
      Scan (shop_env None no_fault) [''barcode'' \<mapsto> ''A1'', ''qty'' \<mapsto> ''2'']] \<and>
   sum_list (map addition_qty
     [Scan (shop_env None no_fault) [''barcode'' \<mapsto> ''A1'', ''qty'' \<mapsto> ''9223372036854775807''],
      Scan (shop_env None no_fault) [''barcode'' \<mapsto> ''A1'', ''qty'' \<mapsto> ''2'']]) =
     9223372036854775809 \<and>
   line_qty ''A1'' (cart (run_additions
     [Scan (shop_env None no_fault) [''barcode'' \<mapsto> ''A1'', ''qty'' \<mapsto> ''9223372036854775807''],
      Scan (shop_env None no_fault) [''barcode'' \<mapsto> ''A1'', ''qty'' \<mapsto> ''2'']]
     \<lparr>cart = [], orders = [], orders_seq = 0\<rparr>)) = Some 9223372036854775808"
proof -
  have q3: "requested_qty [''barcode'' \<mapsto> ''A1'', ''qty'' \<mapsto> ''3''] = 3"
    by (simp add: requested_qty_def py_int_def is_int_space_def parse_unsigned_def
          is_digit_def digit_val_def)
  have q2: "requested_qty [''barcode'' \<mapsto> ''A1'', ''qty'' \<mapsto> ''2''] = 2"
    by (simp add: requested_qty_def py_int_def is_int_space_def parse_unsigned_def
          is_digit_def digit_val_def)
  have qmax: "requested_qty [''barcode'' \<mapsto> ''A1'', ''qty'' \<mapsto> ''9223372036854775807''] =
      9223372036854775807"
    by (simp add: requested_qty_def py_int_def is_int_space_def parse_unsigned_def
          is_digit_def digit_val_def)
  have qbig: "requested_qty [''barcode'' \<mapsto> ''A1'', ''qty'' \<mapsto> ''9223372036854775808''] =
      9223372036854775808"
    by (simp add: requested_qty_def py_int_def is_int_space_def parse_unsigned_def
          is_digit_def digit_val_def)
  have sb: "\<And>q. scanned_barcode [''barcode'' \<mapsto> ''A1'', ''qty'' \<mapsto> q] = ''A1''"
    by (simp add: scanned_barcode_def strip_def is_space_def)
  have st: "strip ''A1'' = ''A1''"
    by (simp add: strip_def is_space_def)
  have over: "sqlite_add 9223372036854775807 2 = 9223372036854775808"
    by (simp add: sqlite_add_def stored_integer_def to_double_def round_53_def
          bit_length.simps)
  have t1: "list_all (targets ''A1'')
     [Scan (shop_env None (\<lambda>n. n = 2)) [''barcode'' \<mapsto> ''A1'', ''qty'' \<mapsto> ''3'']]"
    by (simp add: sb shop_env_fields load_products_shop)
  have a1: "addition_qty (Scan (shop_env None (\<lambda>n. n = 2))
     [''barcode'' \<mapsto> ''A1'', ''qty'' \<mapsto> ''3'']) = 3"
    by (simp add: q3)
  have l1: "line_qty ''A1'' (cart (run_additions
     [Scan (shop_env None (\<lambda>n. n = 2)) [''barcode'' \<mapsto> ''A1'', ''qty'' \<mapsto> ''3'']]
     \<lparr>cart = [], orders = [], orders_seq = 0\<rparr>)) = None"
    by (simp add: home_post_def Let_def st shop_env_fields load_products_shop
          with_db_home_block line_qty_def)
  have t2: "list_all (targets ''A1'')
     [Scan (shop_env None no_fault) [''barcode'' \<mapsto> ''A1'', ''qty'' \<mapsto> ''9223372036854775808'']]"
    by (simp add: sb shop_env_fields load_products_shop)
  have a2: "addition_qty (Scan (shop_env None no_fault)
     [''barcode'' \<mapsto> ''A1'', ''qty'' \<mapsto> ''9223372036854775808'']) = 9223372036854775808"
    by (simp add: qbig)
  have big: "home_post (shop_env None no_fault)
     [''barcode'' \<mapsto> ''A1'', ''qty'' \<mapsto> ''9223372036854775808'']
     \<lparr>cart = [], orders = [], orders_seq = 0\<rparr> =
     \<lparr>db_after = \<lparr>cart = [], orders = [], orders_seq = 0\<rparr>, response = Uncaught OverflowError,
      flashed = [], gateway_requests = []\<rparr>"
    by (simp add: home_post_def Let_def st shop_env_fields load_products_shop
          with_db_home_block form_qty_requested qbig bindable_def no_fault_def)
  have r2: "response (home_post (shop_env None no_fault)
     [''barcode'' \<mapsto> ''A1'', ''qty'' \<mapsto> ''9223372036854775808'']
     \<lparr>cart = [], orders = [], orders_seq = 0\<rparr>) = Uncaught OverflowError"
    by (simp add: big)
  have l2: "line_qty ''A1'' (cart (run_additions
     [Scan (shop_env None no_fault) [''barcode'' \<mapsto> ''A1'', ''qty'' \<mapsto> ''9223372036854775808'']]
     \<lparr>cart = [], orders = [], orders_seq = 0\<rparr>)) = None"
    by (simp add: big line_qty_def)
  have t3: "list_all (targets ''A1'')
     [Scan (shop_env None no_fault) [''barcode'' \<mapsto> ''A1'', ''qty'' \<mapsto> ''9223372036854775807''],
      Scan (shop_env None no_fault) [''barcode'' \<mapsto> ''A1'', ''qty'' \<mapsto> ''2'']]"
    by (simp add: sb shop_env_fields load_products_shop)
  have a3: "sum_list (map addition_qty
     [Scan (shop_env None no_fault) [''barcode'' \<mapsto> ''A1'', ''qty'' \<mapsto> ''9223372036854775807''],
      Scan (shop_env None no_fault) [''barcode'' \<mapsto> ''A1'', ''qty'' \<mapsto> ''2'']]) =
     9223372036854775809"
    by (simp add: qmax q2)
  have first: "home_post (shop_env None no_fault)
     [''barcode'' \<mapsto> ''A1'', ''qty'' \<mapsto> ''9223372036854775807'']
     \<lparr>cart = [], orders = [], orders_seq = 0\<rparr> =
     \<lparr>db_after = \<lparr>cart = [apple_line 9223372036854775807], orders = [], orders_seq = 0\<rparr>,
      response = Redirect ''/'', flashed = [], gateway_requests = []\<rparr>"
    by (simp add: home_post_def Let_def st shop_env_fields load_products_shop
          with_db_home_block form_qty_requested qmax bindable_def no_fault_def
          apple_line_def url_for_def)
  have second: "home_post (shop_env None no_fault)
     [''barcode'' \<mapsto> ''A1'', ''qty'' \<mapsto> ''2'']
     \<lparr>cart = [apple_line 9223372036854775807], orders = [], orders_seq = 0\<rparr> =
     \<lparr>db_after = \<lparr>cart = [apple_line 9223372036854775808], orders = [], orders_seq = 0\<rparr>,
      response = Redirect ''/'', flashed = [], gateway_requests = []\<rparr>"
    by (simp add: home_post_def Let_def st shop_env_fields load_products_shop
          with_db_home_block form_qty_requested q2 bindable_def no_fault_def
          apple_line_def url_for_def update_rows_def over)
  have l3: "line_qty ''A1'' (cart (run_additions
     [Scan (shop_env None no_fault) [''barcode'' \<mapsto> ''A1'', ''qty'' \<mapsto> ''9223372036854775807''],
      Scan (shop_env None no_fault) [''barcode'' \<mapsto> ''A1'', ''qty'' \<mapsto> ''2'']]
     \<lparr>cart = [], orders = [], orders_seq = 0\<rparr>)) = Some 9223372036854775808"
    by (simp add: first second line_qty_def, simp add: apple_line_def)
  from t1 a1 l1 t2 a2 r2 l2 t3 a3 l3 show ?thesis
    by (simp only: simp_thms)
qed

section \<open>The amount\<close>

lemma bit_length_le: "n < 2 ^ k \<Longrightarrow> bit_length n \<le> k"
proof (induction k arbitrary: n)
  case 0
  then show ?case by (simp add: bit_length.simps)
next
  case (Suc k)
  show ?case
  proof (cases "n = 0")
    case True
    then show ?thesis by (simp add: bit_length.simps)
  next
    case False
    from Suc.prems have "n div 2 < 2 ^ k" by simp
    then have "bit_length (n div 2) \<le> k" by (rule Suc.IH)
    with False show ?thesis by (subst bit_length.simps) simp
  qed
qed

lemma round_core:
  fixes a N P K H :: nat
  assumes lo: "N * (K * P) \<le> a" and hi: "a + H < (N + 1) * (K * P)"
    and half: "2 * H = P" and pos: "0 < K"
  shows "(if H < a mod P \<or> (a mod P = H \<and> odd (a div P)) then a div P + 1 else a div P) * P
           div (K * P) = N"
proof -
  have P: "0 < P" using hi half by (cases "P = 0") auto
  define q where "q = a div P"
  define r where "r = a mod P"
  have a: "a = q * P + r" by (simp add: q_def r_def)
  have "N * K * P div P \<le> a div P"
    using lo by (intro div_le_mono) (simp add: mult.assoc)
  then have NK: "N * K \<le> q" using P by (simp add: q_def)
  then have low: "N * (K * P) \<le> q * P"
    by (metis mult.assoc mult_le_mono1)
  have eq: "x div (K * P) = N" if "N * (K * P) \<le> x" and "x < (N + 1) * (K * P)" for x
    using that by (intro div_nat_eqI) (simp_all add: mult.commute)
  have "(if H < r \<or> (r = H \<and> odd q) then q + 1 else q) * P div (K * P) = N"
  proof (cases "H < r \<or> (r = H \<and> odd q)")
    case True
    then have "H \<le> r" by auto
    then have "(q + 1) * P \<le> a + H" using a half by (simp add: algebra_simps)
    with hi have "(q + 1) * P < (N + 1) * (K * P)" by simp
    moreover have "q * P \<le> (q + 1) * P" by simp
    with low have "N * (K * P) \<le> (q + 1) * P" by (rule order_trans)
    ultimately have "(q + 1) * P div (K * P) = N" by (intro eq)
    then show ?thesis by (simp only: if_P [OF True])
  next
    case False
    have "q * P \<le> a" using a by simp
    with hi have "q * P < (N + 1) * (K * P)" by simp
    with low have "q * P div (K * P) = N" by (rule eq)
    then show ?thesis by (simp only: if_not_P [OF False])
  qed
  then show ?thesis by (simp only: q_def r_def)
qed


lemma round_53_product:
  fixes t :: nat
  assumes t: "t < 422212465065984"
  shows "round_53 (t * DOUBLE_1_05) div 2 ^ 52 = 21 * t div 20"
proof -
  define a where "a = t * DOUBLE_1_05"
  define N where "N = 21 * t div 20"
  have a20: "20 * a = 21 * t * 4503599627370496 + 4 * t"
    by (simp add: a_def DOUBLE_1_05_def)
  have N1: "20 * N \<le> 21 * t" and N2: "21 * t < 20 * N + 20"
    by (simp_all add: N_def)
  have lo: "N * 4503599627370496 \<le> a"
    using a20 N1 by linarith
  have hi: "a + H < (N + 1) * 4503599627370496" if "H \<le> 140737488355328" for H :: nat
    using a20 N2 t that by (simp add: algebra_simps)
  have small: "a < 2 ^ 101"
    using t by (simp add: a_def DOUBLE_1_05_def)
  have "round_53 a div 2 ^ 52 = N"
  proof (cases "bit_length a \<le> 53")
    case True
    have "a div 4503599627370496 = N"
      using lo hi [of 0] by (intro div_nat_eqI) (simp_all add: mult.commute)
    with True show ?thesis by (simp add: round_53_def)
  next
    case False
    define s where "s = bit_length a - 53"
    have "bit_length a \<le> 101" using small by (rule bit_length_le)
    with False have s1: "1 \<le> s" and s48: "s \<le> 48" by (simp_all add: s_def)
    have KP: "(2::nat) ^ (52 - s) * 2 ^ s = 4503599627370496"
      using s48 by (simp add: power_add [symmetric])
    have half: "2 * (2::nat) ^ (s - 1) = 2 ^ s"
      using s1 by (cases s) simp_all
    have "(2::nat) ^ (s - 1) \<le> 2 ^ 47"
      using s48 by (intro power_increasing) simp_all
    then have H: "(2::nat) ^ (s - 1) \<le> 140737488355328" by simp
    have "(if 2 ^ (s - 1) < a mod 2 ^ s \<or> (a mod 2 ^ s = 2 ^ (s - 1) \<and> odd (a div 2 ^ s))
            then a div 2 ^ s + 1 else a div 2 ^ s) * 2 ^ s div (2 ^ (52 - s) * 2 ^ s) = N"
      using lo hi [OF H] half by (intro round_core) (simp_all add: KP)
    with False show ?thesis
      by (simp add: round_53_def Let_def s_def [symmetric] KP)
  qed
  then show ?thesis by (simp add: a_def N_def)
qed


lemma final_amount_floor:
  assumes "0 \<le> t" and "t < 422212465065984"
  shows "final_amount t = Inr (t * 105 div 100)"
proof -
  define n where "n = nat t"
  have n: "n < 422212465065984" and t: "t = int n"
    using assms by (simp_all add: n_def)
  have "n < 2 ^ 53" using n by simp
  then have "bit_length n \<le> 53" by (rule bit_length_le)
  then have r1: "round_53 n = n" by (simp add: round_53_def)
  define p where "p = round_53 (n * DOUBLE_1_05)"
  have pdiv: "p div 2 ^ 52 = 21 * n div 20"
    unfolding p_def using n by (rule round_53_product)
  have "p < (p div 2 ^ 52 + 1) * 2 ^ 52"
    using div_less_iff_less_mult [of "2 ^ 52" p "p div 2 ^ 52 + 1"] by simp
  also have "\<dots> \<le> 2 ^ 50 * 2 ^ 52"
  proof -
    have "p div 2 ^ 52 + 1 \<le> 2 ^ 50" unfolding pdiv using n by simp
    then show ?thesis by (rule mult_le_mono1)
  qed
  also have "\<dots> < (2::nat) ^ 1076"
    by (simp add: power_add [symmetric])
  finally have p_small: "\<not> 2 ^ 1076 \<le> p" by simp
  have n_small: "\<not> 2 ^ 1024 \<le> n"
  proof -
    have "n < 2 ^ 53" by fact
    also have "\<dots> < (2::nat) ^ 1024" by (intro power_strict_increasing) simp_all
    finally show ?thesis by simp
  qed
  have val: "sgn t * int (21 * n div 20) = t * 105 div 100"
  proof (cases "n = 0")
    case True
    then show ?thesis by (simp add: t)
  next
    case False
    then have "sgn t = 1" by (simp add: t)
    moreover have "int (21 * n div 20) = int n * 105 div 100"
      by (simp add: zdiv_int)
    ultimately show ?thesis by (simp add: t)
  qed
  have "final_amount t = Inr (sgn t * int (p div 2 ^ 52))"
    using n_small p_small r1
    by (simp add: final_amount_def Let_def n_def [symmetric] p_def [symmetric] t)
  then show ?thesis by (simp only: pdiv val)
qed

lemma final_amount_first_failure: "final_amount 422212465065999 = Inr 443323088319299"
  by (simp add: final_amount_def round_53_def DOUBLE_1_05_def bit_length.simps)


lemma create_order_200:
  assumes "response (create_order env body db) = Json 200 kvs"
  shows "\<exists>fa. final_amount (cart_total (cart db)) = Inr fa \<and>
              map_of kvs ''amount'' = Some (JInt (fa * 100))"
  using assms
  by (auto simp add: create_order_def build_order_data_def and_then_def execute_def
        split: option.splits sum.splits if_splits)

lemma payment_success_200:
  assumes "http_status (response (payment_success env body db)) = 200"
  shows "\<exists>fa. final_amount (cart_total (cart db)) = Inr fa \<and>
              order_total (last (orders (db_after (payment_success env body db)))) = fa"
  using assms
  by (auto simp add: payment_success_def payment_error_def http_status_def
        with_db_payment_block split: option.splits sum.splits if_splits)

text \<open>
  C4 (amended). For a cart total from 0 up to (not including) 422212465065984, that is
  \<open>3 * 2 ^ 47\<close>, \<open>int(total * 1.05)\<close> is the floor of 1.05 times the total; the total 1000
  gives 1050. Whenever \<open>create_order\<close> succeeds on a cart and \<open>payment_success\<close> succeeds
  on the same cart, the amount sent to the gateway is 100 times the total written to the
  order: both compute the amount from the cart with the same function.
\<close>

theorem final_amount_spec:
  "(0 \<le> cart_total c \<and> cart_total c < 422212465065984 \<longrightarrow>
      final_amount (cart_total c) = Inr (cart_total c * 105 div 100)) \<and>
   final_amount 1000 = Inr 1050 \<and>
   (cart db' = cart db \<and> response (create_order env body db) = Json 200 kvs \<and>
      http_status (response (payment_success env' body' db')) = 200 \<longrightarrow>
    map_of kvs ''amount'' =
      Some (JInt (order_total (last (orders (db_after (payment_success env' body' db')))) * 100)))"
  using final_amount_floor [of "cart_total c"] final_amount_1000
    create_order_200 [of env body db kvs] payment_success_200 [of env' body' db']
  by auto


theorem final_amount_spec_witness:
  "0 \<le> cart_total [apple_line 20] \<and> cart_total [apple_line 20] < 422212465065984 \<and>
   final_amount (cart_total [apple_line 20]) = Inr 1050 \<and>
   response (create_order (shop_env (Some accepting_client) no_fault) (Some Map.empty)
       \<lparr>cart = [apple_line 20], orders = [], orders_seq = 0\<rparr>) =
     Json 200 [(''order_id'', JStr ''order_1''), (''amount'', JInt 105000),
               (''currency'', JStr ''INR''), (''key_id'', JStr ''rzp_test'')] \<and>
   http_status (response (payment_success (shop_env (Some accepting_client) no_fault)
       (Some Map.empty) \<lparr>cart = [apple_line 20], orders = [], orders_seq = 0\<rparr>)) = 200 \<and>
   order_total (last (orders (db_after (payment_success (shop_env (Some accepting_client) no_fault)
       (Some Map.empty) \<lparr>cart = [apple_line 20], orders = [], orders_seq = 0\<rparr>)))) * 100 = 105000"
proof -
  have tot: "cart_total [apple_line 20] = 1000"
    by (simp add: cart_total_apples)
  have co: "response (create_order (shop_env (Some accepting_client) no_fault) (Some Map.empty)
       \<lparr>cart = [apple_line 20], orders = [], orders_seq = 0\<rparr>) =
     Json 200 [(''order_id'', JStr ''order_1''), (''amount'', JInt 105000),
               (''currency'', JStr ''INR''), (''key_id'', JStr ''rzp_test'')]"
    by (simp add: create_order_def build_order_data_def and_then_def execute_def tot
          final_amount_1000 shop_env_fields no_fault_def accepting_client_def)
  have ps: "http_status (response (payment_success (shop_env (Some accepting_client) no_fault)
       (Some Map.empty) \<lparr>cart = [apple_line 20], orders = [], orders_seq = 0\<rparr>)) = 200"
    by (simp add: payment_success_def with_db_payment_block tot final_amount_1000
          shop_env_fields no_fault_def accepting_client_def http_status_def bindable_def)
  show ?thesis
    using final_amount_spec [of "[apple_line 20]"
        "\<lparr>cart = [apple_line 20], orders = [], orders_seq = 0\<rparr>"
        "\<lparr>cart = [apple_line 20], orders = [], orders_seq = 0\<rparr>"
        "shop_env (Some accepting_client) no_fault" "Some Map.empty"
        "[(''order_id'', JStr ''order_1''), (''amount'', JInt 105000),
          (''currency'', JStr ''INR''), (''key_id'', JStr ''rzp_test'')]"
        "shop_env (Some accepting_client) no_fault" "Some Map.empty"]
      tot co ps
    by simp
qed

text \<open>
  C4 as stated fails for large totals, where the doubles are too coarse: one item priced
  422212465065999 gives the amount 443323088319299, and the floor of 1.05 times the total
  is 443323088319298.
\<close>

theorem final_amount_spec_counterexample:
  "cart_total [\<lparr>barcode = ''A1'', name = ''Apple'', price = 422212465065999, qty = 1\<rparr>] =
     422212465065999 \<and>
   final_amount (cart_total
     [\<lparr>barcode = ''A1'', name = ''Apple'', price = 422212465065999, qty = 1\<rparr>]) =
     Inr 443323088319299 \<and>
   (422212465065999 :: int) * 105 div 100 = 443323088319298"
  by (simp add: cart_total_single stored_integer_def final_amount_first_failure)

end
